theory Spec2Isabelle
  imports Main
begin

section \<open>JavaScript values and objects\<close>

text \<open>
  Field values and ids are JavaScript values. Only the primitives are told apart; an
  array or object value is opaque and carries its reference, so that HOL equality on
  \<open>jsval\<close> is the strict equality \<open>===\<close> of the source (numbers are integers here: no NaN).
\<close>

datatype jsval = Undefined | Null | JBool bool | JNum int | JStr string | JRef nat

text \<open>What \<open>if (v)\<close>, \<open>v && ...\<close>, \<open>v || ...\<close> and \<open>filter(id => id)\<close> test.\<close>

fun truthy :: "jsval \<Rightarrow> bool" where
  "truthy Undefined = False"
| "truthy Null = False"
| "truthy (JBool b) = b"
| "truthy (JNum n) = (n \<noteq> 0)"
| "truthy (JStr s) = (s \<noteq> [])"
| "truthy (JRef r) = True"

text \<open>
  An object (an item, an input, resolved data) is its list of own properties in insertion
  order. \<open>getProp\<close> is \<open>obj[k]\<close>, \<open>hasKey\<close> is \<open>k in obj\<close> / \<open>hasOwnProperty\<close>,
  \<open>keys\<close> is \<open>Object.keys\<close>, \<open>setProp\<close> is \<open>{...obj, k: v}\<close> (an existing key keeps its
  place), \<open>spread\<close> is \<open>{...a, ...b}\<close>.
\<close>

type_synonym obj = "(string \<times> jsval) list"

definition getProp :: "obj \<Rightarrow> string \<Rightarrow> jsval" where
  "getProp ob k = (case map_of ob k of None \<Rightarrow> Undefined | Some v \<Rightarrow> v)"

definition hasKey :: "obj \<Rightarrow> string \<Rightarrow> bool" where
  "hasKey ob k = (k \<in> set (map fst ob))"

definition keys :: "obj \<Rightarrow> string list" where
  "keys ob = map fst ob"

fun setProp :: "obj \<Rightarrow> string \<Rightarrow> jsval \<Rightarrow> obj" where
  "setProp [] k v = [(k, v)]"
| "setProp ((k', v') # ob) k v = (if k' = k then (k, v) # ob else (k', v') # setProp ob k v)"

definition spread :: "obj \<Rightarrow> obj \<Rightarrow> obj" where
  "spread a b = foldl (\<lambda>acc (k, v). setProp acc k v) a b"

section \<open>The JSON list adapter\<close>

text \<open>
  The adapter keeps every list in one JSON document, \<open>{ listKey: [item, ...] }\<close>, in a file
  that it reaches through one descriptor, \<open>_fd\<close>. \<open>_connect\<close> opens the file with
  \<open>fs.open(path)\<close> and no flags, that is for reading only, and every \<open>read\<close> and \<open>write\<close>
  goes through that descriptor.

  The state of the model is the document that the text of the file parses to (\<open>None\<close> when
  the text is not a JSON object, as for an empty file), whether the descriptor is open, and
  whether its position is at the end of the file.
\<close>

type_synonym document = "(string \<times> obj list) list"

datatype js_error = TypeError | EBADF

record jsonAdapter =
  file_document :: "document option"
  fd_open :: bool
  fd_atEnd :: bool

text \<open>\<open>_connect(to)\<close> on a file that exists: the descriptor is open at the start of the file.\<close>

definition JSONAdapter_connect :: "document option \<Rightarrow> jsonAdapter" where
  "JSONAdapter_connect doc = \<lparr>file_document = doc, fd_open = True, fd_atEnd = False\<rparr>"

text \<open>\<open>disconnect()\<close> closes the descriptor and forgets it.\<close>

definition JSONAdapter_disconnect :: "jsonAdapter \<Rightarrow> jsonAdapter" where
  "JSONAdapter_disconnect a = a\<lparr>fd_open := False\<rparr>"

text \<open>
  \<open>read()\<close>: \<open>fs.readFile\<close> on a descriptor reads from the current position to the end of
  the file and leaves the position there, so a second read gets the empty string. What
  does not parse, and a descriptor that is not open, are caught and answered with \<open>{}\<close>.
\<close>

definition JSONAdapter_read :: "jsonAdapter \<Rightarrow> document \<times> jsonAdapter" where
  "JSONAdapter_read a =
     (if fd_open a \<and> \<not> fd_atEnd a
      then (case file_document a of None \<Rightarrow> [] | Some doc \<Rightarrow> doc, a\<lparr>fd_atEnd := True\<rparr>)
      else ([], a))"

text \<open>
  \<open>write(lists)\<close>: \<open>fs.writeFile\<close> on the descriptor. The descriptor was opened for reading,
  so the operating system refuses the write (EBADF) and the promise rejects; without a
  descriptor the call is a TypeError. Nothing is written in either case.
\<close>

definition JSONAdapter_write :: "document \<Rightarrow> jsonAdapter \<Rightarrow> (js_error + unit) \<times> jsonAdapter" where
  "JSONAdapter_write doc a = (if fd_open a then (Inl EBADF, a) else (Inl TypeError, a))"

text \<open>\<open>readList(listKey)\<close> answers \<open>undefined\<close> (\<open>None\<close>) for a list the document read does not hold.\<close>

definition readList :: "string \<Rightarrow> jsonAdapter \<Rightarrow> obj list option \<times> jsonAdapter" where
  "readList listKey a = (case JSONAdapter_read a of (doc, a1) \<Rightarrow> (map_of doc listKey, a1))"

text \<open>\<open>lists[listKey] = items\<close>: an existing key keeps its place.\<close>

fun setList :: "document \<Rightarrow> string \<Rightarrow> obj list \<Rightarrow> document" where
  "setList [] k items = [(k, items)]"
| "setList ((k', items') # doc) k items =
     (if k' = k then (k, items) # doc else (k', items') # setList doc k items)"

definition writeList ::
  "string \<Rightarrow> obj list \<Rightarrow> jsonAdapter \<Rightarrow> (js_error + unit) \<times> jsonAdapter" where
  "writeList listKey items a =
     (case JSONAdapter_read a of (doc, a1) \<Rightarrow> JSONAdapter_write (setList doc listKey items) a1)"

text \<open>\<open>items.findIndex(item => item.id === id)\<close>: the first index, \<open>None\<close> for \<open>-1\<close>.\<close>

fun findIndex :: "jsval \<Rightarrow> obj list \<Rightarrow> nat option" where
  "findIndex i [] = None"
| "findIndex i (item # items) =
     (if getProp item ''id'' = i then Some 0 else map_option Suc (findIndex i items))"

text \<open>
  Modelled from the spec: \<open>spliceImmutably\<close> of the utilities package, which is not among
  the sources; a copy of the array with \<open>n\<close> elements from \<open>start\<close> replaced by \<open>new\<close>.
\<close>

definition spliceImmutably :: "'a list \<Rightarrow> nat \<Rightarrow> nat \<Rightarrow> 'a list \<Rightarrow> 'a list" where
  "spliceImmutably xs start n new = take start xs @ new @ drop (start + n) xs"

text \<open>
  \<open>_create(input)\<close>; \<open>c\<close> is the string \<open>cuid()\<close> returns to this call. Calling
  \<open>concat\<close> on \<open>undefined\<close> is a TypeError; a write that rejects rejects the call.
\<close>

definition JSONListAdapter_create ::
  "string \<Rightarrow> string \<Rightarrow> obj \<Rightarrow> jsonAdapter \<Rightarrow> (js_error + obj) \<times> jsonAdapter" where
  "JSONListAdapter_create listKey c input a =
     (case readList listKey a of
        (None, a1) \<Rightarrow> (Inl TypeError, a1)
      | (Some items, a1) \<Rightarrow>
          (let data = setProp input ''id'' (JStr c)
           in case writeList listKey (items @ [data]) a1 of
                (Inl e, a2) \<Rightarrow> (Inl e, a2)
              | (Inr u, a2) \<Rightarrow> (Inr data, a2)))"

text \<open>
  \<open>_update(id, data)\<close>; the result \<open>None\<close> is \<open>null\<close>. Calling \<open>findIndex\<close> on \<open>undefined\<close>
  is a TypeError.
\<close>

definition JSONListAdapter_update ::
  "string \<Rightarrow> jsval \<Rightarrow> obj \<Rightarrow> jsonAdapter \<Rightarrow> (js_error + obj option) \<times> jsonAdapter" where
  "JSONListAdapter_update listKey i data a =
     (case readList listKey a of
        (None, a1) \<Rightarrow> (Inl TypeError, a1)
      | (Some items, a1) \<Rightarrow>
          (case findIndex i items of
             None \<Rightarrow> (Inr None, a1)
           | Some itemIndex \<Rightarrow>
               (case writeList listKey (spliceImmutably items itemIndex 1 [data]) a1 of
                  (Inl e, a2) \<Rightarrow> (Inl e, a2)
                | (Inr u, a2) \<Rightarrow> (Inr (Some data), a2))))"

section \<open>The list engine: errors, access results, requests\<close>

datatype operation = ReadOp | CreateOp | UpdateOp | DeleteOp

fun opToType :: "operation \<Rightarrow> string" where
  "opToType ReadOp = ''query''"
| "opToType CreateOp = ''mutation''"
| "opToType UpdateOp = ''mutation''"
| "opToType DeleteOp = ''mutation''"

text \<open>
  The \<open>originalInput\<close> a hook or an error is handed. \<open>_beforeChange\<close> and \<open>_afterChange\<close>
  take four parameters and are called with five, so theirs is the operation.
\<close>

datatype orig = OrigInput obj | OrigOperation operation

text \<open>
  The public payload of an access-denied error, \<open>{ type, target, ...extraData }\<close>, and
  its internal payload, \<open>{ authedId, authedListKey, ...extraInternalData }\<close>.
\<close>

record accessDeniedData =
  ad_type :: string
  ad_target :: "string option"
  ad_restrictedFields :: "string list option"

datatype extraInternalData =
    NoExtra
  | ItemId jsval
  | ItemIdArray "jsval list"
  | ItemIds "jsval list"
  | QueryName string

record accessDeniedInternalData =
  ad_authedId :: jsval
  ad_authedListKey :: "string option"
  ad_extra :: extraInternalData

text \<open>A collected validation error \<open>{ msg, data, internalData }\<close>.\<close>

datatype errorData = HookData obj | RequiredData obj operation orig

record validationError =
  ve_msg :: string
  ve_data :: errorData
  ve_internalData :: obj

record validationFailureData =
  vf_messages :: "string list"
  vf_errors :: "errorData list"
  vf_listKey :: string
  vf_operation :: operation

record validationFailureInternalData =
  vf_internalErrors :: "obj list"
  vf_data :: orig

text \<open>
  What the engine raises or passes on: its two errors, an error thrown by a collaborator
  (the storage adapter, a hook), the error \<open>_mapToFields\<close> raises with the list of its
  fields' errors, and the TypeError of reading the keys of \<open>null\<close>.
\<close>

datatype exn =
    AccessDeniedError accessDeniedData accessDeniedInternalData
  | ValidationFailureError validationFailureData validationFailureInternalData
  | Error string
  | FieldErrors "exn list"
  | JsTypeError

text \<open>
  A declarative access or where clause: the four id keys the engine reads, and the rest.
  \<open>None\<close> is an absent key.
\<close>

record whereClause =
  w_id :: "jsval option"
  w_id_not :: "jsval option"
  w_id_in :: "jsval list option"
  w_id_not_in :: "jsval list option"
  w_rest :: obj

definition emptyClause :: whereClause where
  "emptyClause = \<lparr>w_id = None, w_id_not = None, w_id_in = None, w_id_not_in = None, w_rest = []\<rparr>"

text \<open>What \<open>getListAccessControlForUser\<close> answers: \<open>false\<close>, \<open>true\<close> or a clause.\<close>

datatype access = Denied | Granted | Clause whereClause

text \<open>Reading a key of \<open>false\<close> or \<open>true\<close> gives \<open>undefined\<close>, spreading one gives \<open>{}\<close>.\<close>

fun clauseOf :: "access \<Rightarrow> whereClause" where
  "clauseOf (Clause c) = c"
| "clauseOf Denied = emptyClause"
| "clauseOf Granted = emptyClause"

text \<open>
  The \<open>where\<close> of a storage query: a clause, or the conjunction \<open>{ AND: [...] }\<close> of where
  inputs.
\<close>

datatype whereInput = Where whereClause | AndWhere "whereInput list"

record query =
  q_where :: whereInput
  q_first :: "nat option"
  q_args :: obj

record requestContext =
  authedItem :: "obj option"
  authedListKey :: "string option"
  getListAccessControlForUser :: "string \<Rightarrow> operation \<Rightarrow> access"
  getFieldAccessControlForUser :: "string \<Rightarrow> string \<Rightarrow> obj option \<Rightarrow> operation \<Rightarrow> bool"

section \<open>The world: storage, the calls made to it, deferred handles\<close>

datatype storageCall =
    FindById jsval
  | ItemsQuery query
  | ItemsQueryMeta query
  | CreateItem obj
  | UpdateItem jsval obj
  | DeleteItem jsval

datatype deferred = Pending | Resolved obj | Rejected exn

text \<open>
  \<open>store\<close> is the state of the storage collaborator, \<open>calls\<close> the calls made to the list
  adapters so far (oldest first), \<open>deferreds\<close> the handles made by \<open>createLazyDeferred\<close>.
  \<open>settleOrder\<close> is the order in which the promises of a batch settle, which the program
  does not fix: their indices in the batch, the first to settle first; an index it leaves
  out settles after the ones it names, in the order of the batch.
\<close>

record 's world =
  store :: 's
  calls :: "storageCall list"
  deferreds :: "deferred list"
  settleOrder :: "nat list"

text \<open>
  An asynchronous function: from a state to its result (\<open>Inl\<close> a rejection) and the state
  it leaves. \<open>await\<close> sequences two, a rejection skipping the rest.
\<close>

type_synonym ('a, 'st) prog = "'st \<Rightarrow> (exn + 'a) \<times> 'st"

definition resolve :: "'a \<Rightarrow> ('a, 'st) prog" where
  "resolve x = (\<lambda>st. (Inr x, st))"

definition throw :: "exn \<Rightarrow> ('a, 'st) prog" where
  "throw e = (\<lambda>st. (Inl e, st))"

definition await :: "('a, 'st) prog \<Rightarrow> ('a \<Rightarrow> ('b, 'st) prog) \<Rightarrow> ('b, 'st) prog" where
  "await m f = (\<lambda>st. case m st of (Inl e, st') \<Rightarrow> (Inl e, st') | (Inr x, st') \<Rightarrow> f x st')"


text \<open>The storage collaborator (external): one list adapter.\<close>

record 's listAdapter =
  findById :: "jsval \<Rightarrow> ('s \<Rightarrow> (exn + obj option) \<times> 's)"
  itemsQuery :: "query \<Rightarrow> ('s \<Rightarrow> (exn + obj list) \<times> 's)"
  itemsQueryMeta :: "query \<Rightarrow> ('s \<Rightarrow> (exn + nat) \<times> 's)"
  create :: "obj \<Rightarrow> ('s \<Rightarrow> (exn + obj) \<times> 's)"
  update :: "jsval \<Rightarrow> obj \<Rightarrow> ('s \<Rightarrow> (exn + obj option) \<times> 's)"
  delete :: "jsval \<Rightarrow> ('s \<Rightarrow> (exn + obj option) \<times> 's)"

text \<open>A call to the adapter, recorded in \<open>calls\<close> before it runs on the store.\<close>

definition storageCall ::
  "storageCall \<Rightarrow> ('s \<Rightarrow> (exn + 'a) \<times> 's) \<Rightarrow> ('a, 's world) prog" where
  "storageCall c f =
     (\<lambda>w. case f (store w) of
             (r, s') \<Rightarrow> (r, w\<lparr>store := s', calls := calls w @ [c]\<rparr>))"

section \<open>Lists, fields and hooks\<close>

text \<open>
  The mutation state a root mutation and its nested mutations share: the stack of pending
  after-change callbacks (pushed at the end, popped from the end), the backlink queues by
  list key, and the transaction placeholder.
\<close>

record 's mutationState =
  afterChangeStack :: "(unit, 's world) prog list"
  queues :: "(string \<times> jsval list) list"
  transaction :: obj

text \<open>
  The argument object of a hook; \<open>None\<close> is a key the caller does not set (or sets to
  \<open>undefined\<close> or \<open>null\<close>). The context and the actions are the same for every hook of a
  request and are left to the hook itself.
\<close>

record hookArgs =
  a_resolvedData :: "obj option"
  a_existingItem :: "obj option"
  a_originalInput :: "orig option"
  a_updatedItem :: "obj option"

datatype validationHookName = ValidateInput | ValidateDelete

datatype runHookName = BeforeChange | BeforeDelete | AfterChange | AfterDelete

text \<open>
  Hooks are code of the list's configuration. A validation hook is given a callback that
  appends to the caller's array of errors: its model answers the errors it adds, in order,
  and whether it then returns or throws.
\<close>

type_synonym 's runHook = "hookArgs \<Rightarrow> (unit, 's world) prog"

type_synonym 's validationHook =
  "hookArgs \<Rightarrow> 's world \<Rightarrow> (validationError list \<times> (exn + unit)) \<times> 's world"

type_synonym 's fieldResolveHook = "hookArgs \<Rightarrow> (jsval, 's world) prog"

type_synonym 's listResolveHook = "hookArgs \<Rightarrow> (obj, 's world) prog"

text \<open>The hooks a field's or a list's configuration declares: \<open>field.hooks\<close>, \<open>list.hooks\<close>.\<close>

record 's fieldHooks =
  fh_resolveInput :: "'s fieldResolveHook option"
  fh_validate :: "validationHookName \<Rightarrow> 's validationHook option"
  fh_run :: "runHookName \<Rightarrow> 's runHook option"

record 's listHooks =
  lh_resolveInput :: "'s listResolveHook option"
  lh_validate :: "validationHookName \<Rightarrow> 's validationHook option"
  lh_run :: "runHookName \<Rightarrow> 's runHook option"

text \<open>
  A field: its descriptor and the methods of its type's implementation (external);
  \<open>f_resolveInput\<close>, \<open>f_validate h\<close> and \<open>f_run h\<close> are the built-in \<open>field.resolveInput\<close> and
  \<open>field[h]\<close>, \<open>hooks\<close> the ones the configuration declares.
  \<open>getItem\<close>, the third argument of \<open>resolveNestedOperations\<close>, is the deferred handle of
  the item being created (its index in \<open>deferreds\<close>), absent on update.
\<close>

record 's field =
  path :: string
  isRequired :: bool
  isRelationship :: bool
  getDefaultValue :: jsval
  resolveNestedOperations ::
    "jsval \<Rightarrow> obj option \<Rightarrow> nat option \<Rightarrow> (jsval, 's mutationState \<times> 's world) prog"
  convertResolvedOperationsToFieldValue :: "jsval \<Rightarrow> obj option \<Rightarrow> jsval"
  registerBacklink :: "jsval \<Rightarrow> obj \<Rightarrow> (unit, 's mutationState \<times> 's world) prog"
  f_resolveInput :: "'s fieldResolveHook"
  f_validate :: "validationHookName \<Rightarrow> 's validationHook"
  f_run :: "runHookName \<Rightarrow> 's runHook"
  hooks :: "'s fieldHooks"

record gqlNameSet =
  createMutationName :: string
  createManyMutationName :: string
  updateMutationName :: string
  updateManyMutationName :: string
  deleteMutationName :: string
  deleteManyMutationName :: string

text \<open>
  A list. \<open>listFields\<close> is \<open>this.fields\<close>, in declaration order; \<open>resolveBacklinks\<close> is
  \<open>Relationship.resolveBacklinks\<close> of the fields package (external).
\<close>

record 's keystoneList =
  key :: string
  listFields :: "'s field list"
  listHooks :: "'s listHooks"
  gqlNames :: gqlNameSet
  adapter :: "'s listAdapter"
  resolveBacklinks :: "requestContext \<Rightarrow> (unit, 's mutationState \<times> 's world) prog"

section \<open>Access control\<close>

definition throwAccessDenied ::
  "operation \<Rightarrow> requestContext \<Rightarrow> string option \<Rightarrow> extraInternalData \<Rightarrow> string list option
   \<Rightarrow> exn" where
  "throwAccessDenied operation context target extraInternal restrictedFields =
     AccessDeniedError
       \<lparr>ad_type = opToType operation, ad_target = target,
        ad_restrictedFields = restrictedFields\<rparr>
       \<lparr>ad_authedId =
          (case authedItem context of None \<Rightarrow> Undefined | Some item \<Rightarrow> getProp item ''id''),
        ad_authedListKey = authedListKey context,
        ad_extra = extraInternal\<rparr>"

text \<open>
  \<open>checkFieldAccess\<close>. An entry of \<open>itemsToUpdate\<close> is \<open>{ existingItem, data }\<close>; testing
  \<open>field.path in data\<close> on a \<open>data\<close> that is \<open>undefined\<close> throws a TypeError.
\<close>

fun restrictedFieldsOf ::
  "'s keystoneList \<Rightarrow> operation \<Rightarrow> requestContext \<Rightarrow> (obj option \<times> obj option) list
   \<Rightarrow> exn + string list" where
  "restrictedFieldsOf lst operation context [] = Inr []"
| "restrictedFieldsOf lst operation context ((existing, None) # rest) =
     (if listFields lst = [] then restrictedFieldsOf lst operation context rest else Inl JsTypeError)"
| "restrictedFieldsOf lst operation context ((existing, Some input) # rest) =
     (case restrictedFieldsOf lst operation context rest of
        Inl e \<Rightarrow> Inl e
      | Inr others \<Rightarrow>
          Inr (map path
                 (filter (\<lambda>field. \<not> getFieldAccessControlForUser context (key lst) (path field)
                                       existing operation)
                    (filter (\<lambda>field. hasKey input (path field)) (listFields lst)))
               @ others))"

definition checkFieldAccess ::
  "'s keystoneList \<Rightarrow> operation \<Rightarrow> (obj option \<times> obj option) list \<Rightarrow> requestContext
   \<Rightarrow> string \<Rightarrow> extraInternalData \<Rightarrow> exn + unit" where
  "checkFieldAccess lst operation itemsToUpdate context gqlName extraData =
     (case restrictedFieldsOf lst operation context itemsToUpdate of
        Inl e \<Rightarrow> Inl e
      | Inr restrictedFields \<Rightarrow>
          if restrictedFields \<noteq> []
          then Inl (throwAccessDenied operation context (Some gqlName) extraData
                      (Some restrictedFields))
          else Inr ())"

definition checkListAccess ::
  "'s keystoneList \<Rightarrow> requestContext \<Rightarrow> operation \<Rightarrow> string option \<Rightarrow> extraInternalData
   \<Rightarrow> exn + access" where
  "checkListAccess lst context operation gqlName extraInternal =
     (let access = getListAccessControlForUser context (key lst) operation
      in if access = Denied
         then Inl (throwAccessDenied operation context gqlName extraInternal None)
         else Inr access)"

text \<open>The test of \<open>getAccessControlledItem\<close> that the access clause excludes the id.\<close>

definition excludesId :: "whereClause \<Rightarrow> jsval \<Rightarrow> bool" where
  "excludesId access i =
     ((case w_id access of None \<Rightarrow> False | Some v \<Rightarrow> truthy v \<and> v \<noteq> i)
      \<or> (case w_id_not access of None \<Rightarrow> False | Some v \<Rightarrow> truthy v \<and> v = i)
      \<or> (case w_id_in access of None \<Rightarrow> False | Some vs \<Rightarrow> i \<notin> set vs)
      \<or> (case w_id_not_in access of None \<Rightarrow> False | Some vs \<Rightarrow> i \<in> set vs))"

definition getAccessControlledItem ::
  "'s keystoneList \<Rightarrow> jsval \<Rightarrow> access \<Rightarrow> requestContext \<Rightarrow> operation \<Rightarrow> string
   \<Rightarrow> (obj, 's world) prog" where
  "getAccessControlledItem lst i access context operation gqlName =
     (let denied = throw (throwAccessDenied operation context (Some gqlName) (ItemId i) None);
          found = (\<lambda>item. case item of None \<Rightarrow> denied | Some it \<Rightarrow> resolve it);
          q = \<lparr>q_where = Where ((clauseOf access)\<lparr>w_id := Some i\<rparr>), q_first = Some 1,
               q_args = []\<rparr>
      in if access = Granted
         then await (storageCall (FindById i) (findById (adapter lst) i)) found
         else if excludesId (clauseOf access) i
         then denied
         else await (storageCall (ItemsQuery q) (itemsQuery (adapter lst) q))
                (\<lambda>items. found (case items of [] \<Rightarrow> None | it # _ \<Rightarrow> Some it)))"

text \<open>
  Modelled from the spec: \<open>unique\<close>, \<open>intersection\<close> and \<open>omit\<close> of the utilities package,
  which is not among the sources: the distinct elements of an array in order of first
  occurrence, the distinct elements of the first array that the second includes, and
  (below, inline) the clause without its four id keys.
\<close>

definition unique :: "'a list \<Rightarrow> 'a list" where
  "unique xs = rev (remdups (rev xs))"

definition intersection :: "'a list \<Rightarrow> 'a list \<Rightarrow> 'a list" where
  "intersection xs ys = unique (filter (\<lambda>v. v \<in> set ys) xs)"

text \<open>\<open>[].concat(a, as).filter(id => id)\<close>: an absent key contributes \<open>undefined\<close>.\<close>

definition concatIds :: "jsval option \<Rightarrow> jsval list option \<Rightarrow> jsval list" where
  "concatIds a as =
     filter truthy
       ((case a of None \<Rightarrow> [Undefined] | Some v \<Rightarrow> [v])
        @ (case as of None \<Rightarrow> [Undefined] | Some vs \<Rightarrow> vs))"

text \<open>A key of the clause used as a condition: it is there and its value is truthy.\<close>

definition present :: "jsval option \<Rightarrow> bool" where
  "present a = (case a of None \<Rightarrow> False | Some v \<Rightarrow> truthy v)"

definition getAccessControlledItems ::
  "'s keystoneList \<Rightarrow> jsval list \<Rightarrow> access \<Rightarrow> (obj list, 's world) prog" where
  "getAccessControlledItems lst ids access =
     (if ids = [] then resolve []
      else
        let uniqueIds = unique ids in
        if access = Granted
        then (let q = \<lparr>q_where = Where (emptyClause\<lparr>w_id_in := Some uniqueIds\<rparr>),
                        q_first = None, q_args = []\<rparr>
              in storageCall (ItemsQuery q) (itemsQuery (adapter lst) q))
        else
          let acc = clauseOf access;
              id_in =
                (if present (w_id acc) \<or> w_id_in acc \<noteq> None
                 then intersection (unique (concatIds (w_id acc) (w_id_in acc))) uniqueIds
                 else uniqueIds);
              id_not_in =
                (if present (w_id_not acc) \<or> w_id_not_in acc \<noteq> None
                 then Some (intersection
                              (unique (concatIds (w_id_not acc) (w_id_not_in acc))) uniqueIds)
                 else None)
          in if id_in = []
                \<or> (case id_not_in of None \<Rightarrow> False
                    | Some vs \<Rightarrow> length vs = length uniqueIds)
             then resolve []
             else
               (let q = \<lparr>q_where = Where \<lparr>w_id = None, w_id_not = None, w_id_in = Some id_in,
                                            w_id_not_in = id_not_in, w_rest = w_rest acc\<rparr>,
                         q_first = None, q_args = []\<rparr>
                in storageCall (ItemsQuery q) (itemsQuery (adapter lst) q)))"

section \<open>Running hooks\<close>

text \<open>
  Modelled from the spec: \<open>resolveAllKeys\<close> and \<open>arrayToObject\<close> of the utilities package,
  which is not among the sources. \<open>_mapToFields\<close> starts the action of every field, in the
  order of the fields, and waits for all of them; one that fails does not cancel the
  others. It answers the results keyed by path, or raises one error that carries the
  errors of the fields that failed. The model runs the actions one after the other.
\<close>

fun settleAll :: "'f list \<Rightarrow> ('f \<Rightarrow> ('a, 'st) prog) \<Rightarrow> 'st \<Rightarrow> (exn + 'a) list \<times> 'st" where
  "settleAll [] action st = ([], st)"
| "settleAll (f # fs) action st =
     (case action f st of
        (r, st1) \<Rightarrow> (case settleAll fs action st1 of (rs, st2) \<Rightarrow> (r # rs, st2)))"

fun rejections :: "(exn + 'a) list \<Rightarrow> exn list" where
  "rejections [] = []"
| "rejections (Inl e # rs) = e # rejections rs"
| "rejections (Inr v # rs) = rejections rs"

fun fulfilled :: "(string \<times> (exn + 'a)) list \<Rightarrow> (string \<times> 'a) list" where
  "fulfilled [] = []"
| "fulfilled ((p, Inl e) # rs) = fulfilled rs"
| "fulfilled ((p, Inr v) # rs) = (p, v) # fulfilled rs"

definition mapToFields ::
  "'s field list \<Rightarrow> ('s field \<Rightarrow> ('a, 'st) prog) \<Rightarrow> ((string \<times> 'a) list, 'st) prog" where
  "mapToFields flds action =
     (\<lambda>st. case settleAll flds action st of
             (rs, st') \<Rightarrow>
               if rejections rs \<noteq> [] then (Inl (FieldErrors (rejections rs)), st')
               else (Inr (fulfilled (zip (map path flds) rs)), st'))"

text \<open>
  \<open>fieldsByPath\<close> is a plain object keyed by the paths of the fields, so \<open>fieldsByPath[p]\<close>
  is the field declared under \<open>p\<close> or else, for a name that \<open>Object.prototype\<close> defines, the
  property inherited under that name: a function or an object, truthy, and not a field.
\<close>

definition objectPrototype :: "string list" where
  "objectPrototype =
     [''constructor'', ''hasOwnProperty'', ''isPrototypeOf'', ''propertyIsEnumerable'',
      ''toLocaleString'', ''toString'', ''valueOf'', ''__proto__'', ''__defineGetter__'',
      ''__defineSetter__'', ''__lookupGetter__'', ''__lookupSetter__'']"

datatype 's member = Declared "'s field" | Inherited string

definition fieldsByPath :: "'s keystoneList \<Rightarrow> string \<Rightarrow> 's member option" where
  "fieldsByPath lst p =
     (case find (\<lambda>field. path field = p) (listFields lst) of
        Some field \<Rightarrow> Some (Declared field)
      | None \<Rightarrow> if p \<in> set objectPrototype then Some (Inherited p) else None)"

text \<open>
  \<open>_fieldsFromObject\<close>: what \<open>fieldsByPath\<close> holds under the object's keys, the keys it
  does not hold left out.
\<close>

definition fieldsFromObject :: "'s keystoneList \<Rightarrow> obj \<Rightarrow> 's member list" where
  "fieldsFromObject lst ob = List.map_filter (fieldsByPath lst) (keys ob)"

text \<open>The fields among them, and the fields that come before the first that is none.\<close>

fun declaredFields :: "'s member list \<Rightarrow> 's field list" where
  "declaredFields [] = []"
| "declaredFields (Declared field # members) = field # declaredFields members"
| "declaredFields (Inherited p # members) = declaredFields members"

fun fieldsBefore :: "'s member list \<Rightarrow> 's field list" where
  "fieldsBefore [] = []"
| "fieldsBefore (Declared field # members) = field # fieldsBefore members"
| "fieldsBefore (Inherited p # members) = []"

fun allDeclared :: "'s member list \<Rightarrow> bool" where
  "allDeclared [] = True"
| "allDeclared (Declared field # members) = allDeclared members"
| "allDeclared (Inherited p # members) = False"

text \<open>
  \<open>_mapToFields\<close> on the result of \<open>_fieldsFromObject\<close>. The actions are started in order,
  and every action calls a method of the field: on an inherited property the method is
  \<open>undefined\<close> and the call throws a TypeError, out of \<open>_mapToFields\<close>, after the actions of
  the fields before it were started.
\<close>

definition mapToMembers ::
  "'s member list \<Rightarrow> ('s field \<Rightarrow> ('a, 'st) prog) \<Rightarrow> ((string \<times> 'a) list, 'st) prog" where
  "mapToMembers members action =
     (if allDeclared members then mapToFields (declaredFields members) action
      else (\<lambda>st. case settleAll (fieldsBefore members) action st of
                     (rs, st') \<Rightarrow> (Inl JsTypeError, st')))"

definition throwValidationFailure ::
  "'s keystoneList \<Rightarrow> validationError list \<Rightarrow> operation \<Rightarrow> orig option \<Rightarrow> exn" where
  "throwValidationFailure lst errors operation originalInput =
     ValidationFailureError
       \<lparr>vf_messages = map ve_msg errors, vf_errors = map ve_data errors,
        vf_listKey = key lst, vf_operation = operation\<rparr>
       \<lparr>vf_internalErrors = map ve_internalData errors,
        vf_data = (case originalInput of None \<Rightarrow> OrigInput [] | Some d \<Rightarrow> d)\<rparr>"

text \<open>A validation hook run with a callback that appends to the array \<open>errors\<close>.\<close>

definition collecting ::
  "'s validationHook \<Rightarrow> hookArgs \<Rightarrow> (unit, validationError list \<times> 's world) prog" where
  "collecting hook args =
     (\<lambda>(errors, w). case hook args w of ((added, r), w') \<Rightarrow> (r, (errors @ added, w')))"

definition validateHook ::
  "'s keystoneList \<Rightarrow> hookArgs \<Rightarrow> 's field list \<Rightarrow> operation \<Rightarrow> validationHookName
   \<Rightarrow> (unit, 's world) prog" where
  "validateHook lst args flds operation hookName =
     (\<lambda>w.
        case await (mapToFields flds (\<lambda>field. collecting (f_validate field hookName) args))
               (\<lambda>_. mapToFields
                       (filter (\<lambda>field. fh_validate (hooks field) hookName \<noteq> None) flds)
                       (\<lambda>field. case fh_validate (hooks field) hookName of
                                   None \<Rightarrow> resolve ()
                                 | Some hook \<Rightarrow> collecting hook args))
               ([], w) of
          (Inl e, (fieldValidationErrors, w1)) \<Rightarrow> (Inl e, w1)
        | (Inr _, (fieldValidationErrors, w1)) \<Rightarrow>
            if fieldValidationErrors \<noteq> []
            then (Inl (throwValidationFailure lst fieldValidationErrors operation
                         (a_originalInput args)), w1)
            else
              (case lh_validate (listHooks lst) hookName of
                 None \<Rightarrow> (Inr (), w1)
               | Some hook \<Rightarrow>
                   (case hook args w1 of
                      ((listValidationErrors, Inl e), w2) \<Rightarrow> (Inl e, w2)
                    | ((listValidationErrors, Inr _), w2) \<Rightarrow>
                        if listValidationErrors \<noteq> []
                        then (Inl (throwValidationFailure lst listValidationErrors operation
                                     (a_originalInput args)), w2)
                        else (Inr (), w2))))"

text \<open>
  \<open>_validateInput\<close>. Its call of \<open>_validateHook\<close> is on the result of \<open>_fieldsFromObject\<close>:
  with an inherited property among them the first \<open>_mapToFields\<close> of \<open>_validateHook\<close>
  throws the TypeError, as above.
\<close>

definition isMissing :: "jsval \<Rightarrow> bool" where
  "isMissing v = (v = Undefined \<or> v = Null)"

definition requiredMessage :: "string \<Rightarrow> string" where
  "requiredMessage p = ''Required field '' @ [CHR 0x22] @ p @ [CHR 0x22] @ '' is null or undefined.''"

definition validateInput ::
  "'s keystoneList \<Rightarrow> obj \<Rightarrow> obj option \<Rightarrow> operation \<Rightarrow> orig \<Rightarrow> (unit, 's world) prog" where
  "validateInput lst resolvedData existingItem operation originalInput =
     (let args = \<lparr>a_resolvedData = Some resolvedData, a_existingItem = existingItem,
                  a_originalInput = Some originalInput, a_updatedItem = None\<rparr>;
          fieldValidationErrors =
            map (\<lambda>f. \<lparr>ve_msg = requiredMessage (path f),
                       ve_data = RequiredData resolvedData operation originalInput,
                       ve_internalData = []\<rparr>)
              (filter
                 (\<lambda>field. isRequired field \<and> \<not> isRelationship field
                    \<and> ((operation = CreateOp \<and> isMissing (getProp resolvedData (path field)))
                        \<or> (operation = UpdateOp \<and> hasKey resolvedData (path field)
                            \<and> isMissing (getProp resolvedData (path field)))))
                 (listFields lst))
      in if fieldValidationErrors \<noteq> []
         then throw (throwValidationFailure lst fieldValidationErrors operation
                       (Some originalInput))
         else if allDeclared (fieldsFromObject lst resolvedData)
         then validateHook lst args (declaredFields (fieldsFromObject lst resolvedData)) operation
                ValidateInput
         else (\<lambda>w. case settleAll (fieldsBefore (fieldsFromObject lst resolvedData))
                             (\<lambda>field. collecting (f_validate field ValidateInput) args)
                             ([], w) of
                       (rs, (errors, w1)) \<Rightarrow> (Inl JsTypeError, w1)))"

definition validateDelete ::
  "'s keystoneList \<Rightarrow> obj \<Rightarrow> operation \<Rightarrow> (unit, 's world) prog" where
  "validateDelete lst existingItem operation =
     validateHook lst
       \<lparr>a_resolvedData = None, a_existingItem = Some existingItem, a_originalInput = None,
        a_updatedItem = None\<rparr>
       (listFields lst) operation ValidateDelete"

text \<open>\<open>_runHook(args, fieldObject, hookName)\<close>; the keys of \<open>null\<close> are a TypeError.\<close>

definition runHook ::
  "'s keystoneList \<Rightarrow> hookArgs \<Rightarrow> obj option \<Rightarrow> runHookName \<Rightarrow> (unit, 's world) prog" where
  "runHook lst args fieldObject hookName =
     (case fieldObject of
        None \<Rightarrow> throw JsTypeError
      | Some ob \<Rightarrow>
          (let members = fieldsFromObject lst ob
           in await (mapToMembers members (\<lambda>field. f_run field hookName args))
                (\<lambda>_. await (mapToFields
                               (filter (\<lambda>field. fh_run (hooks field) hookName \<noteq> None)
                                  (declaredFields members))
                               (\<lambda>field. case fh_run (hooks field) hookName of
                                           None \<Rightarrow> resolve ()
                                         | Some hook \<Rightarrow> hook args))
                        (\<lambda>_. case lh_run (listHooks lst) hookName of
                                None \<Rightarrow> resolve ()
                              | Some hook \<Rightarrow> hook args))))"

definition beforeChange ::
  "'s keystoneList \<Rightarrow> obj \<Rightarrow> obj option \<Rightarrow> orig \<Rightarrow> (unit, 's world) prog" where
  "beforeChange lst resolvedData existingItem originalInput =
     runHook lst
       \<lparr>a_resolvedData = Some resolvedData, a_existingItem = existingItem,
        a_originalInput = Some originalInput, a_updatedItem = None\<rparr>
       (Some resolvedData) BeforeChange"

definition beforeDelete :: "'s keystoneList \<Rightarrow> obj \<Rightarrow> (unit, 's world) prog" where
  "beforeDelete lst existingItem =
     runHook lst
       \<lparr>a_resolvedData = None, a_existingItem = Some existingItem, a_originalInput = None,
        a_updatedItem = None\<rparr>
       (Some existingItem) BeforeDelete"

definition afterChange ::
  "'s keystoneList \<Rightarrow> obj option \<Rightarrow> obj option \<Rightarrow> orig \<Rightarrow> (unit, 's world) prog" where
  "afterChange lst updatedItem existingItem originalInput =
     runHook lst
       \<lparr>a_resolvedData = None, a_existingItem = existingItem,
        a_originalInput = Some originalInput, a_updatedItem = updatedItem\<rparr>
       updatedItem AfterChange"

definition afterDelete :: "'s keystoneList \<Rightarrow> obj \<Rightarrow> (unit, 's world) prog" where
  "afterDelete lst existingItem =
     runHook lst
       \<lparr>a_resolvedData = None, a_existingItem = Some existingItem, a_originalInput = None,
        a_updatedItem = None\<rparr>
       (Some existingItem) AfterDelete"

section \<open>Resolving the input\<close>

text \<open>A step that does not touch the mutation state, run where one is threaded.\<close>

definition onWorld :: "('a, 's world) prog \<Rightarrow> ('a, 'm \<times> 's world) prog" where
  "onWorld p = (\<lambda>(ms, w). case p w of (r, w') \<Rightarrow> (r, (ms, w')))"

definition resolveDefaults :: "'s keystoneList \<Rightarrow> obj \<Rightarrow> (obj, 's world) prog" where
  "resolveDefaults lst input =
     (let flds = filter (\<lambda>field. getDefaultValue field \<noteq> Undefined) (listFields lst)
      in await (mapToFields flds (\<lambda>field. resolve (getDefaultValue field)))
           (\<lambda>defaults. resolve (spread defaults input)))"

text \<open>
  \<open>_resolveRelationship\<close> keeps the entries whose \<open>isRelationship\<close> is truthy: an inherited
  property has none.
\<close>

definition resolveRelationship ::
  "'s keystoneList \<Rightarrow> obj \<Rightarrow> obj option \<Rightarrow> requestContext \<Rightarrow> nat option
   \<Rightarrow> (obj, 's mutationState \<times> 's world) prog" where
  "resolveRelationship lst input existingItem context getItem =
     (let flds = filter isRelationship (declaredFields (fieldsFromObject lst input))
      in await (mapToFields flds
                  (\<lambda>field. await (resolveNestedOperations field (getProp input (path field))
                                     existingItem getItem)
                             (\<lambda>operations. resolve (convertResolvedOperationsToFieldValue field
                                                       operations existingItem))))
           (\<lambda>resolvedRelationships. resolve (spread input resolvedRelationships)))"

definition registerBacklinks ::
  "'s keystoneList \<Rightarrow> obj \<Rightarrow> (unit, 's mutationState \<times> 's world) prog" where
  "registerBacklinks lst existingItem =
     (let flds = filter isRelationship (listFields lst)
      in await (mapToFields flds
                  (\<lambda>field. registerBacklink field (getProp existingItem (path field))
                             existingItem))
           (\<lambda>_. resolve ()))"

text \<open>
  \<open>_resolveInput\<close>. Every hook is called with \<open>{ resolvedData, ...args }\<close>, in which the
  \<open>resolvedData\<close> of \<open>args\<close>, the data the function was called with, wins.
\<close>

definition resolveInput ::
  "'s keystoneList \<Rightarrow> obj \<Rightarrow> obj option \<Rightarrow> operation \<Rightarrow> orig \<Rightarrow> (obj, 's world) prog" where
  "resolveInput lst resolvedData existingItem operation originalInput =
     (let args = \<lparr>a_resolvedData = Some resolvedData, a_existingItem = existingItem,
                  a_originalInput = Some originalInput, a_updatedItem = None\<rparr>;
          members = fieldsFromObject lst resolvedData
      in await (mapToMembers members (\<lambda>field. f_resolveInput field args))
           (\<lambda>resolvedData1.
              await (mapToFields
                       (filter (\<lambda>field. fh_resolveInput (hooks field) \<noteq> None)
                          (declaredFields members))
                       (\<lambda>field. case fh_resolveInput (hooks field) of
                                   None \<Rightarrow> resolve Undefined
                                 | Some hook \<Rightarrow> hook args))
                (\<lambda>overrides.
                   case lh_resolveInput (listHooks lst) of
                     None \<Rightarrow> resolve (spread resolvedData1 overrides)
                   | Some hook \<Rightarrow> hook args)))"

section \<open>Nested mutations\<close>

text \<open>
  Modelled from the spec: \<open>createLazyDeferred\<close> of the utilities package, which is not
  among the sources: a handle that is pending until it is resolved with the created item
  or rejected with the storage error. The handlers other code attaches to it belong to
  the relationship field and are not part of the model.
\<close>

definition createLazyDeferred :: "(nat, 's world) prog" where
  "createLazyDeferred = (\<lambda>w. (Inr (length (deferreds w)), w\<lparr>deferreds := deferreds w @ [Pending]\<rparr>))"

definition settle :: "nat \<Rightarrow> deferred \<Rightarrow> 's world \<Rightarrow> 's world" where
  "settle h outcome w = w\<lparr>deferreds := (deferreds w)[h := outcome]\<rparr>"

text \<open>
  \<open>while (afterChangeStack.length) { await afterChangeStack.pop()(); }\<close>: the callbacks
  run from the last pushed to the first; one that fails leaves the rest on the stack.
\<close>

function drain ::
  "(unit, 's world) prog list \<Rightarrow> 's world
   \<Rightarrow> (exn + unit) \<times> ((unit, 's world) prog list \<times> 's world)" where
  "drain stack w =
     (if stack = [] then (Inr (), ([], w))
      else (case last stack w of
              (Inl e, w') \<Rightarrow> (Inl e, (butlast stack, w'))
            | (Inr u, w') \<Rightarrow> drain (butlast stack) w'))"
  by pat_completeness auto
termination
  by (relation "measure (\<lambda>(stack, w). length stack)") auto

declare drain.simps [simp del]

text \<open>
  \<open>_nestedMutation(mutationState, context, mutation)\<close>. The state it is given is \<open>None\<close> for
  a root mutation; the state it leaves is the caller's view of that same argument, so
  again \<open>None\<close> for a root mutation, whose fresh state nobody else holds.
\<close>

definition nestedMutation ::
  "'s keystoneList \<Rightarrow> 's mutationState option \<Rightarrow> requestContext
   \<Rightarrow> ('r \<times> (unit, 's world) prog, 's mutationState \<times> 's world) prog
   \<Rightarrow> 's world \<Rightarrow> (exn + 'r) \<times> ('s mutationState option \<times> 's world)" where
  "nestedMutation lst mutationState context mutation w =
     (let isRootMutation = (case mutationState of None \<Rightarrow> True | Some _ \<Rightarrow> False);
          ms0 = (case mutationState of
                   None \<Rightarrow> \<lparr>afterChangeStack = [], queues = [], transaction = []\<rparr>
                 | Some ms \<Rightarrow> ms);
          seen = (\<lambda>ms. if isRootMutation then None else Some ms)
      in case await mutation
                (\<lambda>(result, afterHook).
                   await (resolveBacklinks lst context) (\<lambda>_. resolve (result, afterHook)))
              (ms0, w) of
           (Inl e, (ms1, w1)) \<Rightarrow> (Inl e, (seen ms1, w1))
         | (Inr (result, afterHook), (ms1, w1)) \<Rightarrow>
             (let ms2 = ms1\<lparr>afterChangeStack := afterChangeStack ms1 @ [afterHook]\<rparr>
              in if isRootMutation
                 then (case drain (afterChangeStack ms2) w1 of
                         (Inl e, (stack, w2)) \<Rightarrow> (Inl e, (None, w2))
                       | (Inr _, (stack, w2)) \<Rightarrow> (Inr result, (None, w2)))
                 else (Inr result, (Some ms2, w1))))"

section \<open>The mutations\<close>

text \<open>
  \<open>_createSingle\<close>, in the order of the source, in four parts. First the input is
  resolved: the defaults, the deferred handle, the relationships, the \<open>resolveInput\<close>
  hooks; this answers the handle and the resolved data.
\<close>

definition resolveCreate ::
  "'s keystoneList \<Rightarrow> obj \<Rightarrow> obj option \<Rightarrow> requestContext
   \<Rightarrow> (nat \<times> obj, 's mutationState \<times> 's world) prog" where
  "resolveCreate lst input existingItem context =
     await (onWorld (resolveDefaults lst input))
       (\<lambda>defaultedItem.
          await (onWorld createLazyDeferred)
            (\<lambda>createdPromise.
               await (resolveRelationship lst defaultedItem existingItem context
                        (Some createdPromise))
                 (\<lambda>resolvedData0.
                    await (onWorld (resolveInput lst resolvedData0 existingItem CreateOp
                                      (OrigInput input)))
                      (\<lambda>resolvedData. resolve (createdPromise, resolvedData)))))"

text \<open>Then the resolved data is validated and the \<open>beforeChange\<close> hooks run.\<close>

definition prepareCreate ::
  "'s keystoneList \<Rightarrow> obj \<Rightarrow> obj option \<Rightarrow> requestContext
   \<Rightarrow> (nat \<times> obj, 's mutationState \<times> 's world) prog" where
  "prepareCreate lst input existingItem context =
     await (resolveCreate lst input existingItem context)
       (\<lambda>(createdPromise, resolvedData).
          await (onWorld (validateInput lst resolvedData existingItem CreateOp
                            (OrigInput input)))
            (\<lambda>_. await (onWorld (beforeChange lst resolvedData existingItem
                                   (OrigOperation CreateOp)))
                    (\<lambda>_. resolve (createdPromise, resolvedData))))"

text \<open>
  Then the storage write, with its \<open>try\<close> and \<open>catch\<close>: the handle is resolved with the new
  item or rejected with the error, which is thrown again. This answers the result and the
  after-change callback. Last, the three run as the body of a nested mutation.
\<close>

definition persistCreate ::
  "'s keystoneList \<Rightarrow> obj option \<Rightarrow> nat \<Rightarrow> obj
   \<Rightarrow> (obj \<times> (unit, 's world) prog, 's world) prog" where
  "persistCreate lst existingItem createdPromise resolvedData =
     (\<lambda>w. case storageCall (CreateItem resolvedData) (create (adapter lst) resolvedData) w of
             (Inr newItem, w1) \<Rightarrow>
               (Inr (newItem,
                     afterChange lst (Some newItem) existingItem (OrigOperation CreateOp)),
                settle createdPromise (Resolved newItem) w1)
           | (Inl error, w1) \<Rightarrow> (Inl error, settle createdPromise (Rejected error) w1))"

definition createSingle ::
  "'s keystoneList \<Rightarrow> obj \<Rightarrow> obj option \<Rightarrow> requestContext \<Rightarrow> 's mutationState option
   \<Rightarrow> 's world \<Rightarrow> (exn + obj) \<times> ('s mutationState option \<times> 's world)" where
  "createSingle lst input existingItem context mutationState =
     nestedMutation lst mutationState context
       (await (prepareCreate lst input existingItem context)
          (\<lambda>(createdPromise, resolvedData).
             onWorld (persistCreate lst existingItem createdPromise resolvedData)))"

text \<open>
  \<open>_updateSingle\<close>. In a batch, \<open>data\<close> is \<open>undefined\<close> for an item \<open>zipObj\<close> pairs with no
  input: reading its keys is a TypeError.
\<close>

definition updateSingle ::
  "'s keystoneList \<Rightarrow> jsval \<Rightarrow> obj option \<Rightarrow> obj option \<Rightarrow> requestContext
   \<Rightarrow> 's mutationState option
   \<Rightarrow> 's world \<Rightarrow> (exn + obj option) \<times> ('s mutationState option \<times> 's world)" where
  "updateSingle lst i inputOpt existingItem context mutationState =
     nestedMutation lst mutationState context
       (case inputOpt of
          None \<Rightarrow> throw JsTypeError
        | Some input \<Rightarrow>
            await (resolveRelationship lst input existingItem context None)
              (\<lambda>resolvedData0.
                 await (onWorld (resolveInput lst resolvedData0 existingItem UpdateOp
                                   (OrigInput input)))
                   (\<lambda>resolvedData.
                      await (onWorld (validateInput lst resolvedData existingItem UpdateOp
                                        (OrigInput input)))
                        (\<lambda>_. await (onWorld (beforeChange lst resolvedData existingItem
                                               (OrigOperation UpdateOp)))
                                (\<lambda>_. await (onWorld (storageCall (UpdateItem i resolvedData)
                                                       (update (adapter lst) i resolvedData)))
                                        (\<lambda>newItem.
                                           resolve
                                             (newItem,
                                              afterChange lst newItem existingItem
                                                (OrigOperation UpdateOp))))))))"

definition deleteSingle ::
  "'s keystoneList \<Rightarrow> obj \<Rightarrow> requestContext \<Rightarrow> 's mutationState option
   \<Rightarrow> 's world \<Rightarrow> (exn + obj option) \<times> ('s mutationState option \<times> 's world)" where
  "deleteSingle lst existingItem context mutationState =
     nestedMutation lst mutationState context
       (await (registerBacklinks lst existingItem)
          (\<lambda>_. await (onWorld (validateDelete lst existingItem DeleteOp))
                  (\<lambda>_. await (onWorld (beforeDelete lst existingItem))
                          (\<lambda>_. await (onWorld (storageCall
                                                 (DeleteItem (getProp existingItem ''id''))
                                                 (delete (adapter lst)
                                                    (getProp existingItem ''id''))))
                                  (\<lambda>result.
                                     resolve (result, afterDelete lst existingItem))))))"




definition createMutation ::
  "'s keystoneList \<Rightarrow> obj \<Rightarrow> requestContext \<Rightarrow> 's mutationState option
   \<Rightarrow> 's world \<Rightarrow> (exn + obj) \<times> ('s mutationState option \<times> 's world)" where
  "createMutation lst input context mutationState w =
     (let gqlName = createMutationName (gqlNames lst)
      in case checkListAccess lst context CreateOp (Some gqlName) NoExtra of
           Inl e \<Rightarrow> (Inl e, (mutationState, w))
         | Inr access \<Rightarrow>
             (case checkFieldAccess lst CreateOp [(None, Some input)] context gqlName NoExtra of
                Inl e \<Rightarrow> (Inl e, (mutationState, w))
              | Inr _ \<Rightarrow> createSingle lst input None context mutationState w))"


definition updateMutation ::
  "'s keystoneList \<Rightarrow> jsval \<Rightarrow> obj \<Rightarrow> requestContext \<Rightarrow> 's mutationState option
   \<Rightarrow> 's world \<Rightarrow> (exn + obj option) \<times> ('s mutationState option \<times> 's world)" where
  "updateMutation lst i input context mutationState w =
     (let gqlName = updateMutationName (gqlNames lst)
      in case checkListAccess lst context UpdateOp (Some gqlName) (ItemId i) of
           Inl e \<Rightarrow> (Inl e, (mutationState, w))
         | Inr access \<Rightarrow>
             (case getAccessControlledItem lst i access context UpdateOp gqlName w of
                (Inl e, w1) \<Rightarrow> (Inl e, (mutationState, w1))
              | (Inr existingItem, w1) \<Rightarrow>
                  (case checkFieldAccess lst UpdateOp [(Some existingItem, Some input)] context
                          gqlName (ItemId i) of
                     Inl e \<Rightarrow> (Inl e, (mutationState, w1))
                   | Inr _ \<Rightarrow>
                       updateSingle lst i (Some input) (Some existingItem) context
                         mutationState w1)))"



definition deleteMutation ::
  "'s keystoneList \<Rightarrow> jsval \<Rightarrow> requestContext \<Rightarrow> 's mutationState option
   \<Rightarrow> 's world \<Rightarrow> (exn + obj option) \<times> ('s mutationState option \<times> 's world)" where
  "deleteMutation lst i context mutationState w =
     (let gqlName = deleteMutationName (gqlNames lst)
      in case checkListAccess lst context DeleteOp (Some gqlName) (ItemId i) of
           Inl e \<Rightarrow> (Inl e, (mutationState, w))
         | Inr access \<Rightarrow>
             (case getAccessControlledItem lst i access context DeleteOp gqlName w of
                (Inl e, w1) \<Rightarrow> (Inl e, (mutationState, w1))
              | (Inr existingItem, w1) \<Rightarrow>
                  deleteSingle lst existingItem context mutationState w1))"


section \<open>The queries\<close>





section \<open>Reference definitions\<close>

text \<open>
  Definitions the theorems are stated with. Running callbacks one after the other, in the
  order of the list, up to the first failure.
\<close>

fun runInOrder :: "(unit, 's world) prog list \<Rightarrow> (unit, 's world) prog" where
  "runInOrder [] w = (Inr (), w)"
| "runInOrder (h # hs) w =
     (case h w of (Inl e, w') \<Rightarrow> (Inl e, w') | (Inr u, w') \<Rightarrow> runInOrder hs w')"

text \<open>An item's id passes the id keys of a where clause.\<close>

definition honoursIds :: "whereClause \<Rightarrow> obj \<Rightarrow> bool" where
  "honoursIds c item =
     ((case w_id c of None \<Rightarrow> True | Some v \<Rightarrow> getProp item ''id'' = v)
      \<and> (case w_id_not c of None \<Rightarrow> True | Some v \<Rightarrow> getProp item ''id'' \<noteq> v)
      \<and> (case w_id_in c of None \<Rightarrow> True | Some vs \<Rightarrow> getProp item ''id'' \<in> set vs)
      \<and> (case w_id_not_in c of None \<Rightarrow> True | Some vs \<Rightarrow> getProp item ''id'' \<notin> set vs))"

text \<open>An item passes the id keys of every clause of a where input.\<close>

fun honours :: "whereInput \<Rightarrow> obj \<Rightarrow> bool" where
  "honours (Where c) item = honoursIds c item"
| "honours (AndWhere ws) item = list_all (\<lambda>w. honours w item) ws"



text \<open>
  Running validation hooks one after the other: the errors they add, in order, the errors
  they throw, and the world they leave.
\<close>

fun collectErrors ::
  "'s validationHook list \<Rightarrow> hookArgs \<Rightarrow> 's world
   \<Rightarrow> (validationError list \<times> exn list) \<times> 's world" where
  "collectErrors [] args w = (([], []), w)"
| "collectErrors (h # hs) args w =
     (case h args w of
        ((added, r), w1) \<Rightarrow>
          (case collectErrors hs args w1 of
             ((errors, thrown), w2) \<Rightarrow>
               ((added @ errors, (case r of Inl e \<Rightarrow> [e] | Inr u \<Rightarrow> []) @ thrown), w2)))"

text \<open>The messages of a validation failure.\<close>

fun messagesOf :: "exn + 'a \<Rightarrow> string list option" where
  "messagesOf (Inl (ValidationFailureError d i)) = Some (vf_messages d)"
| "messagesOf r = None"


section \<open>A small configuration for the concrete instances\<close>

text \<open>
  An in-memory storage collaborator: one collection of items, which \<open>create\<close> numbers from
  1, queried by the id keys of the where clause; and a log that hooks can write to.
\<close>

record memory =
  mem_items :: "obj list"
  mem_log :: "string list"

definition memoryAdapter :: "memory listAdapter" where
  "memoryAdapter =
     \<lparr>findById = (\<lambda>i s. (Inr (find (\<lambda>item. getProp item ''id'' = i) (mem_items s)), s)),
      itemsQuery = (\<lambda>q s.
         (Inr (case q_first q of
                 None \<Rightarrow> filter (honours (q_where q)) (mem_items s)
               | Some n \<Rightarrow> take n (filter (honours (q_where q)) (mem_items s))), s)),
      itemsQueryMeta = (\<lambda>q s. (Inr (length (filter (honours (q_where q)) (mem_items s))), s)),
      create = (\<lambda>d s.
         (Inr (setProp d ''id'' (JNum (int (length (mem_items s)) + 1))),
          s\<lparr>mem_items :=
               mem_items s @ [setProp d ''id'' (JNum (int (length (mem_items s)) + 1))]\<rparr>)),
      update = (\<lambda>i d s.
         case findIndex i (mem_items s) of
           None \<Rightarrow> (Inr None, s)
         | Some k \<Rightarrow> (Inr (Some d), s\<lparr>mem_items := (mem_items s)[k := d]\<rparr>)),
      delete = (\<lambda>i s.
         (Inr (find (\<lambda>item. getProp item ''id'' = i) (mem_items s)),
          s\<lparr>mem_items := filter (\<lambda>item. getProp item ''id'' \<noteq> i) (mem_items s)\<rparr>))\<rparr>"

definition noFieldHooks :: "'s fieldHooks" where
  "noFieldHooks = \<lparr>fh_resolveInput = None, fh_validate = (\<lambda>h. None), fh_run = (\<lambda>h. None)\<rparr>"

definition noListHooks :: "'s listHooks" where
  "noListHooks = \<lparr>lh_resolveInput = None, lh_validate = (\<lambda>h. None), lh_run = (\<lambda>h. None)\<rparr>"

text \<open>A plain text field: its built-in hooks do nothing, its input resolves to itself.\<close>

definition textField :: "string \<Rightarrow> 's field" where
  "textField p =
     \<lparr>path = p, isRequired = False, isRelationship = False, getDefaultValue = Undefined,
      resolveNestedOperations = (\<lambda>v existing getItem. resolve v),
      convertResolvedOperationsToFieldValue = (\<lambda>v existing. v),
      registerBacklink = (\<lambda>v existing. resolve ()),
      f_resolveInput =
        (\<lambda>args. resolve (case a_resolvedData args of None \<Rightarrow> Undefined | Some d \<Rightarrow> getProp d p)),
      f_validate = (\<lambda>h args w. (([], Inr ()), w)),
      f_run = (\<lambda>h args. resolve ()),
      hooks = noFieldHooks\<rparr>"

definition namesFor :: "string \<Rightarrow> gqlNameSet" where
  "namesFor n =
     \<lparr>createMutationName = ''create'' @ n, createManyMutationName = ''create'' @ n @ ''s'',
      updateMutationName = ''update'' @ n, updateManyMutationName = ''update'' @ n @ ''s'',
      deleteMutationName = ''delete'' @ n, deleteManyMutationName = ''delete'' @ n @ ''s''\<rparr>"

text \<open>A hook that writes a line to the log.\<close>

definition logLine :: "string \<Rightarrow> (unit, memory world) prog" where
  "logLine n = (\<lambda>w. (Inr (), w\<lparr>store := (store w)\<lparr>mem_log := mem_log (store w) @ [n]\<rparr>\<rparr>))"

definition logAfterChange :: "string \<Rightarrow> memory listHooks" where
  "logAfterChange n =
     noListHooks\<lparr>lh_run := (\<lambda>h. if h = AfterChange then Some (\<lambda>args. logLine n) else None)\<rparr>"

text \<open>Two request contexts: one that is granted everything, one that is denied every list.\<close>

definition anyone :: requestContext where
  "anyone =
     \<lparr>authedItem = None, authedListKey = None,
      getListAccessControlForUser = (\<lambda>k operation. Granted),
      getFieldAccessControlForUser = (\<lambda>k p item operation. True)\<rparr>"


text \<open>
  The list \<open>User\<close>, and the list \<open>Post\<close> whose relationship field \<open>author\<close> resolves its input
  by a nested create of a \<open>User\<close> in the mutation state it is given.
\<close>

definition users :: "memory keystoneList" where
  "users =
     \<lparr>key = ''User'', listFields = [textField ''name''], listHooks = logAfterChange ''User'',
      gqlNames = namesFor ''User'', adapter = memoryAdapter,
      resolveBacklinks = (\<lambda>context. resolve ())\<rparr>"

definition authorField :: "memory field" where
  "authorField =
     (textField ''author'')
       \<lparr>isRelationship := True,
        resolveNestedOperations := (\<lambda>v existing getItem (ms, w).
           case createMutation users [(''name'', v)] anyone (Some ms) w of
             (Inl e, (ms', w')) \<Rightarrow> (Inl e, (case ms' of None \<Rightarrow> ms | Some m \<Rightarrow> m, w'))
           | (Inr item, (ms', w')) \<Rightarrow>
               (Inr (getProp item ''id''), (case ms' of None \<Rightarrow> ms | Some m \<Rightarrow> m, w')))\<rparr>"

definition posts :: "memory keystoneList" where
  "posts =
     \<lparr>key = ''Post'', listFields = [textField ''title'', authorField],
      listHooks = logAfterChange ''Post'',
      gqlNames = namesFor ''Post'', adapter = memoryAdapter,
      resolveBacklinks = (\<lambda>context. resolve ())\<rparr>"

definition emptyWorld :: "memory world" where
  "emptyWorld =
     \<lparr>store = \<lparr>mem_items = [], mem_log = []\<rparr>, calls = [], deferreds = [], settleOrder = []\<rparr>"

text \<open>A mutation body that has one callback pushed, as a nested mutation would, and succeeds.\<close>

definition parentBody :: "(string \<times> (unit, memory world) prog, memory mutationState \<times> memory world) prog" where
  "parentBody =
     (\<lambda>(ms, w). (Inr (''done'', logLine ''parent''),
                  (ms\<lparr>afterChangeStack := afterChangeStack ms @ [logLine ''child'']\<rparr>, w)))"

text \<open>A world that holds the given items, and a user whose access clause names one id.\<close>

definition worldWith :: "obj list \<Rightarrow> memory world" where
  "worldWith stored =
     \<lparr>store = \<lparr>mem_items = stored, mem_log = []\<rparr>, calls = [], deferreds = [],
      settleOrder = []\<rparr>"

definition onlyItem :: "jsval \<Rightarrow> requestContext" where
  "onlyItem i =
     anyone\<lparr>getListAccessControlForUser := (\<lambda>k operation. Clause (emptyClause\<lparr>w_id := Some i\<rparr>))\<rparr>"

definition threeItems :: "obj list" where
  "threeItems = [[(''id'', JNum 1)], [(''id'', JNum 2)], [(''id'', JNum 3)]]"


text \<open>
  A validation hook that adds one error, and the list \<open>Review\<close>: its field \<open>title\<close> declares
  such a hook, and so does the list.
\<close>

definition reject :: "string \<Rightarrow> memory validationHook" where
  "reject m = (\<lambda>args w. (([\<lparr>ve_msg = m, ve_data = HookData [], ve_internalData = []\<rparr>], Inr ()), w))"

definition reviews :: "memory keystoneList" where
  "reviews =
     \<lparr>key = ''Review'',
      listFields =
        [(textField ''title'')
           \<lparr>hooks := noFieldHooks\<lparr>fh_validate := (\<lambda>h. Some (reject ''title is taken''))\<rparr>\<rparr>],
      listHooks = noListHooks\<lparr>lh_validate := (\<lambda>h. Some (reject ''no reviews today''))\<rparr>,
      gqlNames = namesFor ''Review'', adapter = memoryAdapter,
      resolveBacklinks = (\<lambda>context. resolve ())\<rparr>"

definition reviewArgs :: hookArgs where
  "reviewArgs =
     \<lparr>a_resolvedData = Some [(''title'', JStr ''t'')], a_existingItem = None,
      a_originalInput = Some (OrigInput [(''title'', JStr ''t'')]), a_updatedItem = None\<rparr>"

text \<open>
  The list \<open>Article\<close>: its field \<open>status\<close> is required and has a default value, its field
  \<open>title\<close> is required and has none. And a list whose storage fails every \<open>create\<close>.
\<close>

definition articles :: "memory keystoneList" where
  "articles =
     \<lparr>key = ''Article'',
      listFields =
        [(textField ''title'')\<lparr>isRequired := True\<rparr>,
         (textField ''status'')\<lparr>isRequired := True, getDefaultValue := JStr ''draft''\<rparr>],
      listHooks = logAfterChange ''Article'',
      gqlNames = namesFor ''Article'', adapter = memoryAdapter,
      resolveBacklinks = (\<lambda>context. resolve ())\<rparr>"

definition fullDisk :: "memory keystoneList" where
  "fullDisk =
     articles\<lparr>adapter := memoryAdapter\<lparr>create := (\<lambda>d s. (Inl (Error ''disk full''), s))\<rparr>\<rparr>"

text \<open>
  Two files for the JSON adapter, as \<open>_connect\<close> leaves them: one holds the list \<open>Post\<close>
  with one item, the other the empty document \<open>{}\<close>.
\<close>

definition onePost :: jsonAdapter where
  "onePost =
     JSONAdapter_connect (Some [(''Post'', [[(''id'', JStr ''p1''), (''name'', JStr ''a'')]])])"

definition emptyDocument :: jsonAdapter where
  "emptyDocument = JSONAdapter_connect (Some [])"

section \<open>Objects\<close>

lemma map_of_setProp:
  "map_of (setProp ob k v) k' = (if k' = k then Some v else map_of ob k')"
  by (induction ob) auto

lemma getProp_setProp:
  "getProp (setProp ob k v) k' = (if k' = k then v else getProp ob k')"
  by (simp add: getProp_def map_of_setProp)

lemma hasKey_map_of: "hasKey ob k = (map_of ob k \<noteq> None)"
  by (simp add: hasKey_def map_of_eq_None_iff)

lemma hasKey_setProp:
  "hasKey (setProp ob k v) k' = (k' = k \<or> hasKey ob k')"
  by (simp add: hasKey_map_of map_of_setProp)

section \<open>Properties of the JSON list adapter\<close>

lemma findIndex_None:
  "findIndex i items = None \<longleftrightarrow> (\<forall>item \<in> set items. getProp item ''id'' \<noteq> i)"
  by (induction items) auto

text \<open>
  No write goes through: the descriptor is read-only. So no operation of the list adapter
  changes the file, and one that reaches its write rejects.
\<close>

lemma JSONAdapter_write_rejects:
  "\<exists>e. JSONAdapter_write doc a = (Inl e, a)"
  by (simp add: JSONAdapter_write_def)

lemma writeList_rejects:
  "\<exists>e. fst (writeList listKey items a) = Inl e"
  by (simp add: writeList_def JSONAdapter_write_def JSONAdapter_read_def)

lemma JSONListAdapter_create_rejects:
  "\<exists>e. fst (JSONListAdapter_create listKey c input a) = Inl e"
proof (cases "readList listKey a")
  case (Pair r a1)
  show ?thesis
  proof (cases r)
    case None
    with Pair show ?thesis by (simp add: JSONListAdapter_create_def)
  next
    case (Some items)
    obtain e where "fst (writeList listKey (items @ [setProp input ''id'' (JStr c)]) a1) = Inl e"
      using writeList_rejects by blast
    with Pair Some show ?thesis
      by (auto simp: JSONListAdapter_create_def Let_def split: prod.splits sum.splits)
  qed
qed

lemma JSONListAdapter_keeps_the_file:
  "file_document (snd (JSONListAdapter_create listKey c input a)) = file_document a"
  "file_document (snd (JSONListAdapter_update listKey i data a)) = file_document a"
  by (auto simp: JSONListAdapter_create_def JSONListAdapter_update_def Let_def readList_def
      writeList_def JSONAdapter_read_def JSONAdapter_write_def
      split: prod.splits sum.splits option.splits if_splits)

text \<open>
  Once the descriptor has been read to the end, every read answers \<open>{}\<close>: the list is
  \<open>undefined\<close> and both operations call a method of \<open>undefined\<close>.
\<close>

lemma JSONListAdapter_after_a_read:
  assumes "fd_atEnd a"
  shows "JSONListAdapter_update listKey i data a = (Inl TypeError, a)"
    and "JSONListAdapter_create listKey c input a = (Inl TypeError, a)"
  using assms
  by (simp_all add: JSONListAdapter_update_def JSONListAdapter_create_def readList_def
      JSONAdapter_read_def)

text \<open>
  The first read of a file that holds the list: an update with an id that no item of the
  list has returns null, and the file is as it was.
\<close>

lemma JSONListAdapter_update_first_read:
  assumes "fd_open a" and "\<not> fd_atEnd a"
    and "file_document a = Some doc" and "map_of doc listKey = Some items"
    and "\<forall>item \<in> set items. getProp item ''id'' \<noteq> i"
  shows "JSONListAdapter_update listKey i data a = (Inr None, a\<lparr>fd_atEnd := True\<rparr>)"
proof -
  have "findIndex i items = None"
    using assms(5) by (simp add: findIndex_None)
  then show ?thesis
    using assms(1-4) by (simp add: JSONListAdapter_update_def readList_def JSONAdapter_read_def)
qed

text \<open>
  C9. \<open>_update(id, data)\<close> with an id that no stored item has does not always return null,
  as its comment has it. On a file that holds the empty document it throws a TypeError;
  on a file that holds the list, with one item of another id, the first call returns
  null and the same call made again throws the TypeError, the descriptor being at the
  end of the file.
\<close>

theorem update_unknown_id_throws_TypeError:
  "JSONListAdapter_update ''Post'' (JStr ''p2'') [(''name'', JStr ''x'')] emptyDocument
     = (Inl TypeError, emptyDocument\<lparr>fd_atEnd := True\<rparr>)
   \<and> JSONListAdapter_update ''Post'' (JStr ''p2'') [(''name'', JStr ''x'')] onePost
     = (Inr None, onePost\<lparr>fd_atEnd := True\<rparr>)
   \<and> JSONListAdapter_update ''Post'' (JStr ''p2'') [(''name'', JStr ''x'')]
       (snd (JSONListAdapter_update ''Post'' (JStr ''p2'') [(''name'', JStr ''x'')] onePost))
     = (Inl TypeError, onePost\<lparr>fd_atEnd := True\<rparr>)"
  by (simp add: JSONListAdapter_update_def readList_def JSONAdapter_read_def onePost_def
      emptyDocument_def JSONAdapter_connect_def getProp_def)

text \<open>
  C10. \<open>_create(input)\<close> returns no item and stores none. On a file that holds the list
  its write is refused (EBADF) and the call rejects, the file as it was; on a file that
  holds the empty document it throws a TypeError.
\<close>

theorem create_rejects_and_stores_nothing:
  "JSONListAdapter_create ''Post'' ''c1'' [(''id'', JStr ''mine''), (''name'', JStr ''b'')] onePost
     = (Inl EBADF, onePost\<lparr>fd_atEnd := True\<rparr>)
   \<and> file_document (onePost\<lparr>fd_atEnd := True\<rparr>)
     = Some [(''Post'', [[(''id'', JStr ''p1''), (''name'', JStr ''a'')]])]
   \<and> JSONListAdapter_create ''Post'' ''c1'' [(''id'', JStr ''mine''), (''name'', JStr ''b'')]
       emptyDocument
     = (Inl TypeError, emptyDocument\<lparr>fd_atEnd := True\<rparr>)"
  by (simp add: JSONListAdapter_create_def readList_def writeList_def JSONAdapter_read_def
      JSONAdapter_write_def onePost_def emptyDocument_def JSONAdapter_connect_def Let_def)

section \<open>List access\<close>


lemma checkListAccess_allowed:
  "getListAccessControlForUser context (key lst) operation \<noteq> Denied \<Longrightarrow>
   checkListAccess lst context operation gqlName extra
     = Inr (getListAccessControlForUser context (key lst) operation)"
  by (simp add: checkListAccess_def Let_def)



section \<open>The after-change stack\<close>

lemma drain_Nil: "drain [] w = (Inr (), ([], w))"
  by (simp add: drain.simps)

lemma drain_snoc:
  "drain (stack @ [h]) w =
     (case h w of (Inl e, w') \<Rightarrow> (Inl e, (stack, w')) | (Inr u, w') \<Rightarrow> drain stack w')"
  by (subst drain.simps) (simp split: prod.splits sum.splits)

text \<open>Draining the stack runs its callbacks from the last pushed to the first.\<close>

lemma drain_runInOrder:
  "fst (drain stack w) = fst (runInOrder (rev stack) w)
   \<and> snd (snd (drain stack w)) = snd (runInOrder (rev stack) w)"
proof (induction stack arbitrary: w rule: rev_induct)
  case Nil
  show ?case by (simp add: drain_Nil)
next
  case (snoc h stack)
  show ?case
  proof (cases "h w")
    case (Pair r w')
    then show ?thesis
      using snoc.IH [of w'] by (cases r) (simp_all add: drain_snoc)
  qed
qed

text \<open>
  C2, as the code has it. A mutation whose body and backlink resolution succeed pushes
  its after-change callback on the shared stack. A nested mutation (one that is given a
  mutation state) stops there: it runs no callback and returns. The root mutation then
  drains the stack last-pushed-first; its own callback was pushed last, after those of
  the nested mutations its body ran, so the root's \<open>afterChange\<close> is invoked first and the
  nested ones after it, in the reverse of the order in which they were pushed. The root
  returns its result only when every callback has run; a callback that fails makes the
  root fail with that error instead.
\<close>

theorem nestedMutation_runs_root_callback_first:
  assumes body: "mutation (case mutationState of
                      None \<Rightarrow> \<lparr>afterChangeStack = [], queues = [], transaction = []\<rparr>
                    | Some ms \<Rightarrow> ms, w) = (Inr (result, afterHook), (ms1, w1))"
    and backlinks: "resolveBacklinks lst context (ms1, w1) = (Inr (), (ms2, w2))"
  shows "(mutationState \<noteq> None \<longrightarrow>
            nestedMutation lst mutationState context mutation w
              = (Inr result,
                 (Some (ms2\<lparr>afterChangeStack := afterChangeStack ms2 @ [afterHook]\<rparr>), w2)))
       \<and> (mutationState = None \<longrightarrow>
            nestedMutation lst mutationState context mutation w
              = (case runInOrder (afterHook # rev (afterChangeStack ms2)) w2 of
                   (Inl e, w3) \<Rightarrow> (Inl e, (None, w3))
                 | (Inr u, w3) \<Rightarrow> (Inr result, (None, w3))))"
proof (cases mutationState)
  case None
  obtain r st w3 where d: "drain (afterChangeStack ms2 @ [afterHook]) w2 = (r, (st, w3))"
    by (metis prod.exhaust)
  have run: "runInOrder (afterHook # rev (afterChangeStack ms2)) w2 = (r, w3)"
    using drain_runInOrder [of "afterChangeStack ms2 @ [afterHook]" w2] d
    by (simp add: prod_eq_iff)
  have "nestedMutation lst None context mutation w
      = (case r of Inl e \<Rightarrow> (Inl e, (None, w3)) | Inr u \<Rightarrow> (Inr result, (None, w3)))"
    using body backlinks d None
    by (simp add: nestedMutation_def await_def resolve_def split: sum.splits)
  then show ?thesis
    using None run by (simp split: sum.splits)
next
  case (Some ms)
  then show ?thesis
    using body backlinks
    by (simp add: nestedMutation_def await_def resolve_def)
qed

theorem nestedMutation_runs_root_callback_first_witness:
  "parentBody (\<lparr>afterChangeStack = [], queues = [], transaction = []\<rparr>, emptyWorld)
     = (Inr (''done'', logLine ''parent''),
        (\<lparr>afterChangeStack = [logLine ''child''], queues = [], transaction = []\<rparr>, emptyWorld))
   \<and> nestedMutation users None anyone parentBody emptyWorld
     = (Inr ''done'',
        (None, emptyWorld\<lparr>store := \<lparr>mem_items = [], mem_log = [''parent'', ''child'']\<rparr>\<rparr>))"
proof -
  have body: "parentBody (case None of
                   None \<Rightarrow> \<lparr>afterChangeStack = [], queues = [], transaction = []\<rparr>
                 | Some ms \<Rightarrow> ms, emptyWorld)
      = (Inr (''done'', logLine ''parent''),
         (\<lparr>afterChangeStack = [logLine ''child''], queues = [], transaction = []\<rparr>, emptyWorld))"
    by (simp add: parentBody_def)
  have backlinks: "resolveBacklinks users anyone
        (\<lparr>afterChangeStack = [logLine ''child''], queues = [], transaction = []\<rparr>, emptyWorld)
      = (Inr (), (\<lparr>afterChangeStack = [logLine ''child''], queues = [], transaction = []\<rparr>,
                  emptyWorld))"
    by (simp add: users_def resolve_def)
  show ?thesis
    using body
      nestedMutation_runs_root_callback_first
        [where mutation = parentBody and mutationState = None and w = emptyWorld
           and lst = users, OF body backlinks]
    by (simp add: logLine_def emptyWorld_def)
qed

text \<open>
  C2 as stated fails. Creating a \<open>Post\<close> whose \<open>author\<close> is created by a nested mutation
  invokes the \<open>afterChange\<close> hook of the root write (\<open>Post\<close>) before that of the nested
  write (\<open>User\<close>).
\<close>

theorem nested_afterChange_runs_after_parent:
  "mem_log (store (snd (snd (createMutation posts
       [(''title'', JStr ''t''), (''author'', JStr ''u'')] anyone None emptyWorld))))
   = [''Post'', ''User'']"
  by code_simp

section \<open>Looking up one item under access control\<close>

lemma storageCall_result:
  "storageCall c f w = (fst (f (store w)), w\<lparr>store := snd (f (store w)), calls := calls w @ [c]\<rparr>)"
  by (simp add: storageCall_def split: prod.splits)

text \<open>
  The errors of \<open>getAccessControlledItem\<close>. It raises the access-denied error, with one and
  the same payload (public \<open>{ type, target }\<close>, internal \<open>{ authedId, authedListKey, itemId }\<close>),
  when \<open>findById\<close> answers \<open>null\<close>, when its own test finds that the clause excludes the
  id, and when the query answers no item. Any other error it raises is one the storage
  adapter raised. An update or a delete by id whose lookup fails raises that same error.
\<close>

lemma getAccessControlledItem_failures:
  fixes lst :: "'s keystoneList"
  defines "failure operation context gqlName i \<equiv>
             AccessDeniedError
               \<lparr>ad_type = opToType operation, ad_target = Some gqlName,
                ad_restrictedFields = None\<rparr>
               \<lparr>ad_authedId = (case authedItem context of None \<Rightarrow> Undefined
                               | Some item \<Rightarrow> getProp item ''id''),
                ad_authedListKey = authedListKey context, ad_extra = ItemId i\<rparr>"
    and "q access i \<equiv>
          \<lparr>q_where = Where ((clauseOf access)\<lparr>w_id := Some i\<rparr>), q_first = Some 1, q_args = []\<rparr>"
  shows "(access = Granted \<and> fst (findById (adapter lst) i (store w)) = Inr None \<longrightarrow>
            fst (getAccessControlledItem lst i access context operation gqlName w)
              = Inl (failure operation context gqlName i))
       \<and> (access \<noteq> Granted \<and> excludesId (clauseOf access) i \<longrightarrow>
            getAccessControlledItem lst i access context operation gqlName w
              = (Inl (failure operation context gqlName i), w))
       \<and> (access \<noteq> Granted \<and> fst (itemsQuery (adapter lst) (q access i) (store w)) = Inr [] \<longrightarrow>
            fst (getAccessControlledItem lst i access context operation gqlName w)
              = Inl (failure operation context gqlName i))
       \<and> (\<forall>e. fst (getAccessControlledItem lst i access context operation gqlName w) = Inl e \<longrightarrow>
              e = failure operation context gqlName i
              \<or> (access = Granted \<and> fst (findById (adapter lst) i (store w)) = Inl e)
              \<or> (access \<noteq> Granted \<and> fst (itemsQuery (adapter lst) (q access i) (store w)) = Inl e))
       \<and> (\<forall>e. getListAccessControlForUser context (key lst) UpdateOp = access \<and> access \<noteq> Denied
              \<and> fst (getAccessControlledItem lst i access context UpdateOp
                        (updateMutationName (gqlNames lst)) w) = Inl e \<longrightarrow>
              fst (updateMutation lst i input context ms w) = Inl e)
       \<and> (\<forall>e. getListAccessControlForUser context (key lst) DeleteOp = access \<and> access \<noteq> Denied
              \<and> fst (getAccessControlledItem lst i access context DeleteOp
                        (deleteMutationName (gqlNames lst)) w) = Inl e \<longrightarrow>
              fst (deleteMutation lst i context ms w) = Inl e)"
proof -
  have granted: "access = Granted \<and> fst (findById (adapter lst) i (store w)) = Inr None \<longrightarrow>
      fst (getAccessControlledItem lst i access context operation gqlName w)
        = Inl (failure operation context gqlName i)"
    by (simp add: getAccessControlledItem_def failure_def throwAccessDenied_def await_def
        throw_def storageCall_result Let_def)
  have excluded: "access \<noteq> Granted \<and> excludesId (clauseOf access) i \<longrightarrow>
      getAccessControlledItem lst i access context operation gqlName w
        = (Inl (failure operation context gqlName i), w)"
    by (simp add: getAccessControlledItem_def failure_def throwAccessDenied_def throw_def Let_def)
  have filtered: "access \<noteq> Granted
      \<and> fst (itemsQuery (adapter lst) (q access i) (store w)) = Inr [] \<longrightarrow>
      fst (getAccessControlledItem lst i access context operation gqlName w)
        = Inl (failure operation context gqlName i)"
    by (simp add: getAccessControlledItem_def failure_def q_def throwAccessDenied_def await_def
        throw_def storageCall_result Let_def)
  have others: "\<forall>e. fst (getAccessControlledItem lst i access context operation gqlName w) = Inl e \<longrightarrow>
      e = failure operation context gqlName i
      \<or> (access = Granted \<and> fst (findById (adapter lst) i (store w)) = Inl e)
      \<or> (access \<noteq> Granted \<and> fst (itemsQuery (adapter lst) (q access i) (store w)) = Inl e)"
    by (auto simp: getAccessControlledItem_def failure_def q_def throwAccessDenied_def await_def
        throw_def resolve_def storageCall_result Let_def
        split: if_splits sum.splits option.splits list.splits)
  have upd: "\<forall>e. getListAccessControlForUser context (key lst) UpdateOp = access \<and> access \<noteq> Denied
      \<and> fst (getAccessControlledItem lst i access context UpdateOp
                (updateMutationName (gqlNames lst)) w) = Inl e \<longrightarrow>
      fst (updateMutation lst i input context ms w) = Inl e"
    by (auto simp: updateMutation_def checkListAccess_allowed Let_def split: prod.splits sum.splits)
  have del: "\<forall>e. getListAccessControlForUser context (key lst) DeleteOp = access \<and> access \<noteq> Denied
      \<and> fst (getAccessControlledItem lst i access context DeleteOp
                (deleteMutationName (gqlNames lst)) w) = Inl e \<longrightarrow>
      fst (deleteMutation lst i context ms w) = Inl e"
    by (auto simp: deleteMutation_def checkListAccess_allowed Let_def split: prod.splits sum.splits)
  show ?thesis
    using granted excluded filtered others upd del by blast
qed

text \<open>
  C3. The lookup does not raise the access-denied error for every item that the caller's
  access clause excludes. Its test that the clause excludes the id reads
  \<open>access.id && access.id !== id\<close>: a clause whose \<open>id\<close> is falsy (\<open>0\<close>, \<open>null\<close>) passes it, and
  the query \<open>{ ...access, id }\<close> then puts the requested id in the place of the clause's,
  where the comment has it that a differing \<open>access.id\<close> was caught earlier. Here the list
  holds the items 1, 2 and 3. Under the clause \<open>{ id: 2 }\<close> the lookup of item 1 is denied.
  Under the clause \<open>{ id: 0 }\<close>, which excludes item 1 just as well, item 1 is found, and
  the delete by id deletes it.
\<close>

theorem item_excluded_by_falsy_id_is_found:
  "honoursIds (emptyClause\<lparr>w_id := Some (JNum 2)\<rparr>) [(''id'', JNum 1)] = False
   \<and> fst (deleteMutation posts (JNum 1) (onlyItem (JNum 2)) None (worldWith threeItems))
     = Inl (AccessDeniedError
              \<lparr>ad_type = ''mutation'', ad_target = Some ''deletePost'', ad_restrictedFields = None\<rparr>
              \<lparr>ad_authedId = Undefined, ad_authedListKey = None, ad_extra = ItemId (JNum 1)\<rparr>)
   \<and> honoursIds (emptyClause\<lparr>w_id := Some (JNum 0)\<rparr>) [(''id'', JNum 1)] = False
   \<and> getListAccessControlForUser (onlyItem (JNum 0)) ''Post'' DeleteOp
     = Clause (emptyClause\<lparr>w_id := Some (JNum 0)\<rparr>)
   \<and> fst (getAccessControlledItem posts (JNum 1) (Clause (emptyClause\<lparr>w_id := Some (JNum 0)\<rparr>))
            (onlyItem (JNum 0)) DeleteOp ''deletePost'' (worldWith threeItems))
     = Inr [(''id'', JNum 1)]
   \<and> fst (deleteMutation posts (JNum 1) (onlyItem (JNum 0)) None (worldWith threeItems))
     = Inr (Some [(''id'', JNum 1)])
   \<and> mem_items (store (snd (snd (deleteMutation posts (JNum 1) (onlyItem (JNum 0)) None
                                    (worldWith threeItems)))))
     = [[(''id'', JNum 2)], [(''id'', JNum 3)]]
   \<and> calls (snd (snd (deleteMutation posts (JNum 1) (onlyItem (JNum 0)) None
                         (worldWith threeItems))))
     = [ItemsQuery \<lparr>q_where = Where (emptyClause\<lparr>w_id := Some (JNum 1)\<rparr>), q_first = Some 1,
                    q_args = []\<rparr>,
        DeleteItem (JNum 1)]"
  by code_simp

section \<open>Looking up a batch of items under access control\<close>

text \<open>
  C5. The batch lookup does not narrow the requested ids by every id constraint of the
  access clause: it tests the clause's \<open>id\<close> and \<open>id_not\<close> for truthiness and drops the falsy
  entries of its id lists (\<open>filter(id => id)\<close>), so a constraint on a falsy id (\<open>0\<close>) is lost.
  Under the clause \<open>{ id: 0 }\<close> the ids 1, 2 and 3 are requested: none of them is allowed,
  yet the storage query is issued, for all three and without the clause's id, and the
  three items are returned. Under the clause \<open>{ id_not_in: [0] }\<close> the id 0 is requested:
  every requested id is disallowed, yet the query is issued and item 0 is returned.
\<close>

theorem batch_lookup_loses_a_falsy_id:
  "getAccessControlledItems posts [JNum 1, JNum 2, JNum 3]
      (Clause (emptyClause\<lparr>w_id := Some (JNum 0)\<rparr>)) (worldWith threeItems)
     = (Inr [[(''id'', JNum 1)], [(''id'', JNum 2)], [(''id'', JNum 3)]],
        (worldWith threeItems)
          \<lparr>calls :=
             [ItemsQuery \<lparr>q_where = Where (emptyClause\<lparr>w_id_in := Some [JNum 1, JNum 2, JNum 3]\<rparr>),
                          q_first = None, q_args = []\<rparr>]\<rparr>)
   \<and> getAccessControlledItems posts [JNum 0]
      (Clause (emptyClause\<lparr>w_id_not_in := Some [JNum 0]\<rparr>)) (worldWith [[(''id'', JNum 0)]])
     = (Inr [[(''id'', JNum 0)]],
        (worldWith [[(''id'', JNum 0)]])
          \<lparr>calls :=
             [ItemsQuery \<lparr>q_where = Where (emptyClause\<lparr>w_id_in := Some [JNum 0],
                                                          w_id_not_in := Some []\<rparr>),
                          q_first = None, q_args = []\<rparr>]\<rparr>)
   \<and> getAccessControlledItems posts [JNum 1, JNum 2, JNum 3]
      (Clause (emptyClause\<lparr>w_id := Some (JNum 9)\<rparr>)) (worldWith threeItems)
     = (Inr [], worldWith threeItems)"
  by code_simp

section \<open>Field access on writes\<close>






section \<open>Validation\<close>

lemma collectErrors_append:
  "collectErrors (hs1 @ hs2) args w =
     (case collectErrors hs1 args w of
        ((e1, x1), w1) \<Rightarrow>
          (case collectErrors hs2 args w1 of
             ((e2, x2), w2) \<Rightarrow> ((e1 @ e2, x1 @ x2), w2)))"
  by (induction hs1 arbitrary: w) (auto split: prod.splits)

text \<open>The built-in hooks of the fields, run through \<open>_mapToFields\<close> with the shared array.\<close>

lemma settleAll_collecting:
  "\<exists>rs. settleAll flds (\<lambda>field. collecting (h field) args) (errors, w)
          = (rs, (errors @ fst (fst (collectErrors (map h flds) args w)),
                  snd (collectErrors (map h flds) args w)))
        \<and> rejections rs = snd (fst (collectErrors (map h flds) args w))"
proof (induction flds arbitrary: errors w)
  case Nil
  show ?case by simp
next
  case (Cons f flds)
  obtain added r w1 where step: "h f args w = ((added, r), w1)"
    by (metis prod.exhaust)
  obtain rs where rest: "settleAll flds (\<lambda>field. collecting (h field) args) (errors @ added, w1)
          = (rs, ((errors @ added) @ fst (fst (collectErrors (map h flds) args w1)),
                  snd (collectErrors (map h flds) args w1)))"
        "rejections rs = snd (fst (collectErrors (map h flds) args w1))"
    using Cons.IH [of "errors @ added" w1] by blast
  show ?case
    using step rest by (cases r) (auto simp: collecting_def split: prod.splits)
qed

text \<open>The hooks the fields declare, run the same way for the fields that declare one.\<close>

lemma settleAll_declared:
  "\<exists>rs. settleAll (filter (\<lambda>field. g field \<noteq> None) flds)
            (\<lambda>field. case g field of None \<Rightarrow> resolve () | Some hook \<Rightarrow> collecting hook args)
            (errors, w)
          = (rs, (errors @ fst (fst (collectErrors (List.map_filter g flds) args w)),
                  snd (collectErrors (List.map_filter g flds) args w)))
        \<and> rejections rs = snd (fst (collectErrors (List.map_filter g flds) args w))"
proof (induction flds arbitrary: errors w)
  case Nil
  show ?case by (simp add: List.map_filter_simps)
next
  case (Cons f flds)
  show ?case
  proof (cases "g f")
    case None
    then show ?thesis
      using Cons.IH [of errors w] by (simp add: List.map_filter_simps)
  next
    case (Some hook)
    obtain added r w1 where step: "hook args w = ((added, r), w1)"
      by (metis prod.exhaust)
    obtain rs where rest:
        "settleAll (filter (\<lambda>field. g field \<noteq> None) flds)
            (\<lambda>field. case g field of None \<Rightarrow> resolve () | Some hook \<Rightarrow> collecting hook args)
            (errors @ added, w1)
          = (rs, ((errors @ added) @ fst (fst (collectErrors (List.map_filter g flds) args w1)),
                  snd (collectErrors (List.map_filter g flds) args w1)))"
        "rejections rs = snd (fst (collectErrors (List.map_filter g flds) args w1))"
      using Cons.IH [of "errors @ added" w1] by blast
    show ?thesis
      using Some step rest
      by (cases r) (auto simp: collecting_def List.map_filter_simps split: prod.splits)
  qed
qed

lemma mapToFields_state:
  assumes "settleAll flds action st = (rs, st')" and "rejections rs = []"
  shows "\<exists>v. mapToFields flds action st = (Inr v, st')"
  using assms by (simp add: mapToFields_def)

text \<open>
  C1, as the code has it. In a validation phase in which no hook throws, the errors that
  the fields' built-in hooks and then the fields' declared hooks add are collected in one
  array. If there are any, the phase fails once, with one validation failure whose
  messages are all of them, in that order; the list's hook is not run, so what it would
  add is not part of the failure. If there are none, the list's hook runs, and if it adds
  errors the phase fails once with all of those.
\<close>

theorem validateHook_raises_one_group_of_failures:
  assumes run: "collectErrors
                  (map (\<lambda>field. f_validate field hookName) flds
                   @ List.map_filter (\<lambda>field. fh_validate (hooks field) hookName) flds)
                  args w = ((errors, []), w1)"
  shows "(errors \<noteq> [] \<longrightarrow>
            validateHook lst args flds operation hookName w
              = (Inl (ValidationFailureError
                        \<lparr>vf_messages = map ve_msg errors, vf_errors = map ve_data errors,
                         vf_listKey = key lst, vf_operation = operation\<rparr>
                        \<lparr>vf_internalErrors = map ve_internalData errors,
                         vf_data = (case a_originalInput args of None \<Rightarrow> OrigInput []
                                    | Some d \<Rightarrow> d)\<rparr>), w1))
       \<and> (errors = [] \<and> lh_validate (listHooks lst) hookName = None \<longrightarrow>
            validateHook lst args flds operation hookName w = (Inr (), w1))
       \<and> (\<forall>hook added w2.
             errors = [] \<and> lh_validate (listHooks lst) hookName = Some hook
             \<and> hook args w1 = ((added, Inr ()), w2) \<longrightarrow>
             validateHook lst args flds operation hookName w
               = (if added \<noteq> []
                  then (Inl (ValidationFailureError
                               \<lparr>vf_messages = map ve_msg added, vf_errors = map ve_data added,
                                vf_listKey = key lst, vf_operation = operation\<rparr>
                               \<lparr>vf_internalErrors = map ve_internalData added,
                                vf_data = (case a_originalInput args of None \<Rightarrow> OrigInput []
                                           | Some d \<Rightarrow> d)\<rparr>), w2)
                  else (Inr (), w2)))"
proof -
  let ?builtin = "\<lambda>field. f_validate field hookName"
  let ?declared = "\<lambda>field. fh_validate (hooks field) hookName"
  obtain e1 x1 wa where first: "collectErrors (map ?builtin flds) args w = ((e1, x1), wa)"
    by (metis prod.exhaust)
  obtain e2 x2 wb where second:
      "collectErrors (List.map_filter ?declared flds) args wa = ((e2, x2), wb)"
    by (metis prod.exhaust)
  have parts: "errors = e1 @ e2" "x1 = []" "x2 = []" "wb = w1"
    using run first second by (simp_all add: collectErrors_append)
  obtain rs1 where s1: "settleAll flds (\<lambda>field. collecting (?builtin field) args) ([], w)
        = (rs1, (e1, wa))" "rejections rs1 = []"
    using settleAll_collecting [of flds ?builtin args "[]" w] first parts by auto
  obtain rs2 where s2:
      "settleAll (filter (\<lambda>field. ?declared field \<noteq> None) flds)
         (\<lambda>field. case ?declared field of None \<Rightarrow> resolve ()
                   | Some hook \<Rightarrow> collecting hook args) (e1, wa)
        = (rs2, (e1 @ e2, wb))" "rejections rs2 = []"
    using settleAll_declared [of ?declared flds args e1 wa] second parts by auto
  obtain v1 where m1: "mapToFields flds (\<lambda>field. collecting (?builtin field) args) ([], w)
      = (Inr v1, (e1, wa))"
    using mapToFields_state [OF s1] by blast
  obtain v2 where m2: "mapToFields (filter (\<lambda>field. ?declared field \<noteq> None) flds)
         (\<lambda>field. case ?declared field of None \<Rightarrow> resolve ()
                   | Some hook \<Rightarrow> collecting hook args) (e1, wa)
      = (Inr v2, (e1 @ e2, wb))"
    using mapToFields_state [OF s2] by blast
  have fields: "await (mapToFields flds (\<lambda>field. collecting (?builtin field) args))
         (\<lambda>_. mapToFields (filter (\<lambda>field. ?declared field \<noteq> None) flds)
                 (\<lambda>field. case ?declared field of None \<Rightarrow> resolve ()
                           | Some hook \<Rightarrow> collecting hook args))
         ([], w) = (Inr v2, (errors, w1))"
    using m1 m2 parts by (simp add: await_def)
  show ?thesis
    unfolding validateHook_def fields
    by (auto simp: throwValidationFailure_def)
qed

theorem validateHook_raises_one_group_of_failures_witness:
  "validateHook reviews reviewArgs (listFields reviews) CreateOp ValidateInput emptyWorld
     = (Inl (ValidationFailureError
               \<lparr>vf_messages = [''title is taken''], vf_errors = [HookData []],
                vf_listKey = ''Review'', vf_operation = CreateOp\<rparr>
               \<lparr>vf_internalErrors = [[]], vf_data = OrigInput [(''title'', JStr ''t'')]\<rparr>),
        emptyWorld)"
proof -
  let ?errors = "[\<lparr>ve_msg = ''title is taken'', ve_data = HookData [], ve_internalData = []\<rparr>]"
  have run: "collectErrors
               (map (\<lambda>field. f_validate field ValidateInput) (listFields reviews)
                @ List.map_filter (\<lambda>field. fh_validate (hooks field) ValidateInput)
                    (listFields reviews))
               reviewArgs emptyWorld = ((?errors, []), emptyWorld)"
    by (simp add: reviews_def textField_def noFieldHooks_def reject_def
        List.map_filter_simps)
  have "?errors \<noteq> []"
    by simp
  then show ?thesis
    using validateHook_raises_one_group_of_failures [OF run, of reviews CreateOp,
        THEN conjunct1]
    by (simp add: reviews_def reviewArgs_def)
qed

text \<open>
  C1 as stated fails. The field \<open>title\<close> and the list both declare a \<open>validateInput\<close> hook
  that reports a failure. Creating a \<open>Review\<close> raises a validation failure with the
  field's message only: the list's hook, which would add its own, is never run.
\<close>

theorem list_failure_missing_from_field_failures:
  "messagesOf (fst (createMutation reviews [(''title'', JStr ''t'')] anyone None emptyWorld))
     = Some [''title is taken'']
   \<and> map ve_msg (fst (fst (the (lh_validate (listHooks reviews) ValidateInput)
                             reviewArgs emptyWorld)))
     = [''no reviews today'']"
  by code_simp

section \<open>Creating an item\<close>

lemma onWorld_result:
  "onWorld p (ms, w) = (fst (p w), (ms, snd (p w)))"
  by (simp add: onWorld_def split: prod.splits)





text \<open>
  C7. Once the input of a create is resolved and validated and the \<open>beforeChange\<close> hooks
  have run, the item is written. If the storage adapter's \<open>create\<close> fails, the deferred
  handle of the item is rejected with the storage error and the create raises that same
  error; it ends there: the mutation state is the one the preparation left, so the
  after-change callback of this create is not pushed, and the world is the one the failed
  write left, so no callback was run. If \<open>create\<close> succeeds, the handle is resolved with
  the new item before anything else is done: the backlinks are resolved, and the
  after-change callback is pushed (nested create) or the stack drained (root create), in
  the world in which the handle holds the new item. (The handle is a cell of the world;
  the hypothesis says that the collaborators that ran during the preparation have not
  dropped it.)
\<close>

theorem create_persist_settles_the_handle:
  assumes prepared: "prepareCreate lst input existingItem context
                       (case mutationState of
                          None \<Rightarrow> \<lparr>afterChangeStack = [], queues = [], transaction = []\<rparr>
                        | Some ms \<Rightarrow> ms, w)
                     = (Inr (createdPromise, resolvedData), (ms1, w1))"
    and handle: "createdPromise < length (deferreds w1)"
  shows "(\<forall>error s2.
            create (adapter lst) resolvedData (store w1) = (Inl error, s2) \<longrightarrow>
            createSingle lst input existingItem context mutationState w
              = (Inl error,
                 (case mutationState of None \<Rightarrow> None | Some ms \<Rightarrow> Some ms1,
                  w1\<lparr>store := s2, calls := calls w1 @ [CreateItem resolvedData],
                     deferreds := (deferreds w1)[createdPromise := Rejected error]\<rparr>))
            \<and> deferreds (snd (snd (createSingle lst input existingItem context mutationState w)))
                ! createdPromise = Rejected error)
       \<and> (\<forall>newItem s2.
            create (adapter lst) resolvedData (store w1) = (Inr newItem, s2) \<longrightarrow>
            (let w2 = w1\<lparr>store := s2, calls := calls w1 @ [CreateItem resolvedData],
                         deferreds := (deferreds w1)[createdPromise := Resolved newItem]\<rparr>;
                 afterHook = afterChange lst (Some newItem) existingItem (OrigOperation CreateOp)
             in deferreds w2 ! createdPromise = Resolved newItem
                \<and> createSingle lst input existingItem context mutationState w
                    = (case resolveBacklinks lst context (ms1, w2) of
                         (Inl e, (ms2, w3)) \<Rightarrow>
                           (Inl e, (case mutationState of None \<Rightarrow> None | Some ms \<Rightarrow> Some ms2, w3))
                       | (Inr u, (ms2, w3)) \<Rightarrow>
                           (case mutationState of
                              Some ms \<Rightarrow>
                                (Inr newItem,
                                 (Some (ms2\<lparr>afterChangeStack := afterChangeStack ms2 @ [afterHook]\<rparr>),
                                  w3))
                            | None \<Rightarrow>
                                (case runInOrder (afterHook # rev (afterChangeStack ms2)) w3 of
                                   (Inl e, w4) \<Rightarrow> (Inl e, (None, w4))
                                 | (Inr u, w4) \<Rightarrow> (Inr newItem, (None, w4)))))))"
proof (intro conjI allI impI)
  fix error s2
  assume fails: "create (adapter lst) resolvedData (store w1) = (Inl error, s2)"
  have persist: "persistCreate lst existingItem createdPromise resolvedData w1
      = (Inl error, w1\<lparr>store := s2, calls := calls w1 @ [CreateItem resolvedData],
                        deferreds := (deferreds w1)[createdPromise := Rejected error]\<rparr>)"
    using fails by (simp add: persistCreate_def storageCall_def settle_def)
  show r: "createSingle lst input existingItem context mutationState w
      = (Inl error,
         (case mutationState of None \<Rightarrow> None | Some ms \<Rightarrow> Some ms1,
          w1\<lparr>store := s2, calls := calls w1 @ [CreateItem resolvedData],
             deferreds := (deferreds w1)[createdPromise := Rejected error]\<rparr>))"
    using prepared persist
    by (cases mutationState)
       (simp_all add: createSingle_def nestedMutation_def await_def onWorld_result)
  show "deferreds (snd (snd (createSingle lst input existingItem context mutationState w)))
      ! createdPromise = Rejected error"
    using handle by (simp add: r)
next
  fix newItem s2
  assume succeeds: "create (adapter lst) resolvedData (store w1) = (Inr newItem, s2)"
  let ?w2 = "w1\<lparr>store := s2, calls := calls w1 @ [CreateItem resolvedData],
                 deferreds := (deferreds w1)[createdPromise := Resolved newItem]\<rparr>"
  let ?afterHook = "afterChange lst (Some newItem) existingItem (OrigOperation CreateOp)"
  have persist: "persistCreate lst existingItem createdPromise resolvedData w1
      = (Inr (newItem, ?afterHook), ?w2)"
    using succeeds by (simp add: persistCreate_def storageCall_def settle_def)
  have resolved: "deferreds ?w2 ! createdPromise = Resolved newItem"
    using handle by simp
  obtain rb ms2 w3 where backlinks: "resolveBacklinks lst context (ms1, ?w2) = (rb, (ms2, w3))"
    by (metis prod.exhaust)
  have r: "createSingle lst input existingItem context mutationState w
      = (case resolveBacklinks lst context (ms1, ?w2) of
           (Inl e, (ms2, w3)) \<Rightarrow>
             (Inl e, (case mutationState of None \<Rightarrow> None | Some ms \<Rightarrow> Some ms2, w3))
         | (Inr u, (ms2, w3)) \<Rightarrow>
             (case mutationState of
                Some ms \<Rightarrow>
                  (Inr newItem,
                   (Some (ms2\<lparr>afterChangeStack := afterChangeStack ms2 @ [?afterHook]\<rparr>), w3))
              | None \<Rightarrow>
                  (case runInOrder (?afterHook # rev (afterChangeStack ms2)) w3 of
                     (Inl e, w4) \<Rightarrow> (Inl e, (None, w4))
                   | (Inr u, w4) \<Rightarrow> (Inr newItem, (None, w4)))))"
  proof (cases rb)
    case (Inl e)
    show ?thesis
      using prepared persist backlinks Inl
      by (cases mutationState)
         (simp_all add: createSingle_def nestedMutation_def await_def onWorld_result resolve_def)
  next
    case (Inr u)
    show ?thesis
    proof (cases mutationState)
      case (Some ms)
      show ?thesis
        using prepared persist backlinks Inr Some
        by (simp add: createSingle_def nestedMutation_def await_def onWorld_result resolve_def)
    next
      case None
      obtain r st w4 where d: "drain (afterChangeStack ms2 @ [?afterHook]) w3 = (r, (st, w4))"
        by (metis prod.exhaust)
      have run: "runInOrder (?afterHook # rev (afterChangeStack ms2)) w3 = (r, w4)"
        using drain_runInOrder [of "afterChangeStack ms2 @ [?afterHook]" w3] d
        by (simp add: prod_eq_iff)
      show ?thesis
        using prepared persist backlinks Inr None d run
        by (cases r)
           (simp_all add: createSingle_def nestedMutation_def await_def onWorld_result
             resolve_def)
    qed
  qed
  show "let w2 = w1\<lparr>store := s2, calls := calls w1 @ [CreateItem resolvedData],
                     deferreds := (deferreds w1)[createdPromise := Resolved newItem]\<rparr>;
            afterHook = afterChange lst (Some newItem) existingItem (OrigOperation CreateOp)
        in deferreds w2 ! createdPromise = Resolved newItem
           \<and> createSingle lst input existingItem context mutationState w
               = (case resolveBacklinks lst context (ms1, w2) of
                    (Inl e, (ms2, w3)) \<Rightarrow>
                      (Inl e, (case mutationState of None \<Rightarrow> None | Some ms \<Rightarrow> Some ms2, w3))
                  | (Inr u, (ms2, w3)) \<Rightarrow>
                      (case mutationState of
                         Some ms \<Rightarrow>
                           (Inr newItem,
                            (Some (ms2\<lparr>afterChangeStack := afterChangeStack ms2 @ [afterHook]\<rparr>),
                             w3))
                       | None \<Rightarrow>
                           (case runInOrder (afterHook # rev (afterChangeStack ms2)) w3 of
                              (Inl e, w4) \<Rightarrow> (Inl e, (None, w4))
                            | (Inr u, w4) \<Rightarrow> (Inr newItem, (None, w4)))))"
    unfolding Let_def using resolved r by simp
qed

theorem create_persist_settles_the_handle_witness:
  "createSingle fullDisk [(''title'', JStr ''t'')] None anyone None emptyWorld
     = (Inl (Error ''disk full''),
        (None,
         \<lparr>store = \<lparr>mem_items = [], mem_log = []\<rparr>,
          calls = [CreateItem [(''status'', JStr ''draft''), (''title'', JStr ''t'')]],
          deferreds = [Rejected (Error ''disk full'')], settleOrder = []\<rparr>))
   \<and> createSingle articles [(''title'', JStr ''t'')] None anyone None emptyWorld
     = (Inr [(''status'', JStr ''draft''), (''title'', JStr ''t''), (''id'', JNum 1)],
        (None,
         \<lparr>store = \<lparr>mem_items = [[(''status'', JStr ''draft''), (''title'', JStr ''t''),
                                   (''id'', JNum 1)]],
                    mem_log = [''Article'']\<rparr>,
          calls = [CreateItem [(''status'', JStr ''draft''), (''title'', JStr ''t'')]],
          deferreds = [Resolved [(''status'', JStr ''draft''), (''title'', JStr ''t''),
                                 (''id'', JNum 1)]],
          settleOrder = []\<rparr>))"
proof -
  let ?fresh = "\<lparr>afterChangeStack = [], queues = [], transaction = []\<rparr> :: memory mutationState"
  let ?data = "[(''status'', JStr ''draft''), (''title'', JStr ''t'')]"
  let ?item = "[(''status'', JStr ''draft''), (''title'', JStr ''t''), (''id'', JNum 1)]"
  have prepared: "prepareCreate lst [(''title'', JStr ''t'')] None anyone
        (case None of None \<Rightarrow> ?fresh | Some ms \<Rightarrow> ms, emptyWorld)
      = (Inr (0, ?data), (?fresh, emptyWorld\<lparr>deferreds := [Pending]\<rparr>))"
    if "lst = fullDisk \<or> lst = articles" for lst
    using that
    by (auto simp: prepareCreate_def resolveCreate_def resolveDefaults_def
        resolveRelationship_def resolveInput_def validateInput_def validateHook_def
        beforeChange_def runHook_def collecting_def isMissing_def
        createLazyDeferred_def mapToFields_def mapToMembers_def fieldsFromObject_def
        fieldsByPath_def objectPrototype_def keys_def spread_def await_def resolve_def
        onWorld_def fullDisk_def articles_def textField_def noFieldHooks_def noListHooks_def
        logAfterChange_def emptyWorld_def getProp_def List.map_filter_simps Let_def)
  have handle: "0 < length (deferreds (emptyWorld\<lparr>deferreds := [Pending]\<rparr>))"
    by simp
  have fails: "create (adapter fullDisk) ?data (store (emptyWorld\<lparr>deferreds := [Pending]\<rparr>))
      = (Inl (Error ''disk full''), \<lparr>mem_items = [], mem_log = []\<rparr>)"
    by (simp add: fullDisk_def emptyWorld_def)
  have succeeds: "create (adapter articles) ?data (store (emptyWorld\<lparr>deferreds := [Pending]\<rparr>))
      = (Inr ?item, \<lparr>mem_items = [?item], mem_log = []\<rparr>)"
    by (simp add: articles_def memoryAdapter_def emptyWorld_def)
  have failure: "createSingle fullDisk [(''title'', JStr ''t'')] None anyone None emptyWorld
     = (Inl (Error ''disk full''),
        (None,
         \<lparr>store = \<lparr>mem_items = [], mem_log = []\<rparr>, calls = [CreateItem ?data],
          deferreds = [Rejected (Error ''disk full'')], settleOrder = []\<rparr>))"
    using create_persist_settles_the_handle
      [where mutationState = None and lst = fullDisk and w = emptyWorld,
        OF prepared handle, THEN conjunct1, rule_format, OF _ fails, THEN conjunct1]
    by (simp add: emptyWorld_def)
  have hook: "afterChange articles (Some ?item) None (OrigOperation CreateOp) w
      = (Inr (), w\<lparr>store := (store w)\<lparr>mem_log := mem_log (store w) @ [''Article'']\<rparr>\<rparr>)" for w
    by (simp add: afterChange_def runHook_def mapToFields_def mapToMembers_def
        fieldsFromObject_def fieldsByPath_def objectPrototype_def keys_def await_def
        resolve_def articles_def textField_def noFieldHooks_def noListHooks_def
        logAfterChange_def logLine_def List.map_filter_simps Let_def)
  have backlinks: "resolveBacklinks articles anyone st = (Inr (), st)" for st
    by (simp add: articles_def resolve_def)
  have success: "createSingle articles [(''title'', JStr ''t'')] None anyone None emptyWorld
     = (Inr ?item,
        (None,
         \<lparr>store = \<lparr>mem_items = [?item], mem_log = [''Article'']\<rparr>, calls = [CreateItem ?data],
          deferreds = [Resolved ?item], settleOrder = []\<rparr>))"
    using create_persist_settles_the_handle
      [where mutationState = None and lst = articles and w = emptyWorld,
        OF prepared handle, THEN conjunct2, rule_format, OF _ succeeds]
    by (simp add: Let_def backlinks hook emptyWorld_def)
  show ?thesis
    using failure success by simp
qed

end
